theory Spec2Isabelle
  imports Main "HOL-Library.Word"
begin

section \<open>Platform interfaces\<close>

text \<open>
  The SDK is written against the browser: \<^verbatim>\<open>window.crypto.subtle\<close> for the key
  agreement and the authenticated cipher, \<^verbatim>\<open>RTCPeerConnection\<close> and
  \<^verbatim>\<open>RTCDataChannel\<close> for the transport. None of that is code of the repository, so
  the cryptographic primitives are a parameter of the model: a record of functions over an
  abstract type \<open>'k\<close> of \<^verbatim>\<open>CryptoKey\<close> handles. A rejected promise of the platform is
  the value \<open>None\<close>.
\<close>

type_synonym peerId = string
type_synonym bytes = "8 word list"

record 'k SubtleCrypto =
  importKey :: "bytes \<Rightarrow> 'k option"
  exportKey :: "'k \<Rightarrow> bytes"
  deriveKey :: "'k \<Rightarrow> 'k \<Rightarrow> 'k option"
  aesGcmEncrypt :: "'k \<Rightarrow> bytes \<Rightarrow> bytes \<Rightarrow> bytes option"
  aesGcmDecrypt :: "'k \<Rightarrow> bytes \<Rightarrow> bytes \<Rightarrow> bytes option"

text \<open>
  \<open>deriveKey c pub priv\<close> is \<^verbatim>\<open>subtle.deriveKey({name: 'ECDH', public: pub}, priv, ...)\<close>;
  \<open>aesGcmEncrypt c key iv plaintext\<close> and \<open>aesGcmDecrypt c key iv ciphertext\<close> are
  \<^verbatim>\<open>subtle.encrypt\<close> and \<^verbatim>\<open>subtle.decrypt\<close> with \<^verbatim>\<open>{name: 'AES-GCM', iv}\<close>.
\<close>

text \<open>
  Two predicates on the parameter. \<open>aeadCorrect\<close> is what the platform documents about
  AES-GCM: decrypting a ciphertext under the key and nonce that produced it gives the
  plaintext back (and encryption itself does not reject). \<open>aeadAuthentic\<close> is an
  idealisation: a ciphertext verifies under no other key. The real cipher only makes
  that overwhelmingly likely, so no general property below assumes it; it is used to show
  that an example does not rest on a cipher that accepts wrong keys.
\<close>

definition aeadCorrect :: "'k SubtleCrypto \<Rightarrow> bool" where
  "aeadCorrect c \<longleftrightarrow>
     (\<forall>k iv m. \<exists>ct. aesGcmEncrypt c k iv m = Some ct \<and> aesGcmDecrypt c k iv ct = Some m)"

definition aeadAuthentic :: "'k SubtleCrypto \<Rightarrow> bool" where
  "aeadAuthentic c \<longleftrightarrow>
     (\<forall>k k' iv m ct. k \<noteq> k' \<longrightarrow> aesGcmEncrypt c k iv m = Some ct \<longrightarrow>
        aesGcmDecrypt c k' iv ct = None)"

section \<open>EncryptionService\<close>

text \<open>
  Every \<^verbatim>\<open>throw\<close> of the services is a value of \<open>error\<close>. The source throws plain
  \<^verbatim>\<open>Error\<close> objects told apart by their message, or rethrows what the platform
  rejected with; the constructors carry the names the specification gives them.
  \<^item> \<open>KeyGenerationError\<close>: \<^verbatim>\<open>subtle.generateKey\<close> rejected;
  \<^item> \<open>NotInitialized\<close>: \<^verbatim>\<open>'Encryption service not initialized'\<close>;
  \<^item> \<open>NoKeyError\<close>: \<^verbatim>\<open>'No shared key found for peer ...'\<close>;
  \<^item> \<open>KeyExchangeError\<close>: \<^verbatim>\<open>importKey\<close> or \<^verbatim>\<open>deriveKey\<close> rejected;
  \<^item> \<open>EncryptionError\<close>, \<open>DecryptionError\<close>: \<^verbatim>\<open>subtle.encrypt\<close>,
    \<^verbatim>\<open>subtle.decrypt\<close> rejected;
  \<^item> \<open>SendError\<close>: \<^verbatim>\<open>'Data channel not available for ...'\<close> and
    \<^verbatim>\<open>'No peer selected or WebRTC manager not initialized'\<close>.
\<close>

datatype error =
  KeyGenerationError | NotInitialized | NoKeyError | KeyExchangeError | EncryptionError
| DecryptionError | SendError

record 'k CryptoKeyPair =
  privateKey :: 'k
  publicKey :: 'k

record 'k EncryptionService =
  keyPair :: "'k CryptoKeyPair option"
  sharedKeys :: "peerId \<rightharpoonup> 'k"

text \<open>
  A method is a function from the object's state to its outcome and the state it leaves:
  an exception does not roll anything back, so the state is returned on both branches.
\<close>

definition newEncryptionService :: "'k EncryptionService" where
  "newEncryptionService = \<lparr>keyPair = None, sharedKeys = Map.empty\<rparr>"

text \<open>
  \<open>initialize\<close>: the argument is what \<^verbatim>\<open>subtle.generateKey\<close> resolved with, \<open>None\<close>
  when it rejected.
\<close>

definition initialize ::
  "'k CryptoKeyPair option \<Rightarrow> 'k EncryptionService \<Rightarrow> (error + unit) \<times> 'k EncryptionService" where
  "initialize generated s =
     (case generated of
        None \<Rightarrow> (Inl KeyGenerationError, s)
      | Some kp \<Rightarrow> (Inr (), s\<lparr>keyPair := Some kp\<rparr>))"

definition getPublicKey ::
  "'k SubtleCrypto \<Rightarrow> 'k EncryptionService \<Rightarrow> (error + bytes) \<times> 'k EncryptionService" where
  "getPublicKey c s =
     (case keyPair s of
        None \<Rightarrow> (Inl NotInitialized, s)
      | Some kp \<Rightarrow> (Inr (exportKey c (publicKey kp)), s))"

definition hasSharedKey :: "'k EncryptionService \<Rightarrow> peerId \<Rightarrow> bool" where
  "hasSharedKey s peerId \<longleftrightarrow> sharedKeys s peerId \<noteq> None"

definition establishSharedKey ::
  "'k SubtleCrypto \<Rightarrow> 'k EncryptionService \<Rightarrow> peerId \<Rightarrow> bytes \<Rightarrow>
     (error + unit) \<times> 'k EncryptionService" where
  "establishSharedKey c s peerId peerPublicKey =
     (case keyPair s of
        None \<Rightarrow> (Inl NotInitialized, s)
      | Some kp \<Rightarrow>
          if sharedKeys s peerId \<noteq> None then (Inr (), s)
          else (case importKey c peerPublicKey of
                  None \<Rightarrow> (Inl KeyExchangeError, s)
                | Some importedPeerKey \<Rightarrow>
                    (case deriveKey c importedPeerKey (privateKey kp) of
                       None \<Rightarrow> (Inl KeyExchangeError, s)
                     | Some sharedKey \<Rightarrow>
                         (Inr (), s\<lparr>sharedKeys := (sharedKeys s)(peerId \<mapsto> sharedKey)\<rparr>))))"

text \<open>
  \<open>encrypt\<close>: \<open>iv\<close> is the value of
  \<^verbatim>\<open>window.crypto.getRandomValues(new Uint8Array(12))\<close>, an input of the model.
\<close>

definition encrypt ::
  "'k SubtleCrypto \<Rightarrow> 'k EncryptionService \<Rightarrow> bytes \<Rightarrow> bytes \<Rightarrow> peerId \<Rightarrow>
     (error + bytes \<times> bytes) \<times> 'k EncryptionService" where
  "encrypt c s iv plaintext peerId =
     (case sharedKeys s peerId of
        None \<Rightarrow> (Inl NoKeyError, s)
      | Some sharedKey \<Rightarrow>
          (case aesGcmEncrypt c sharedKey iv plaintext of
             None \<Rightarrow> (Inl EncryptionError, s)
           | Some ciphertext \<Rightarrow> (Inr (ciphertext, iv), s)))"

definition decrypt ::
  "'k SubtleCrypto \<Rightarrow> 'k EncryptionService \<Rightarrow> bytes \<Rightarrow> bytes \<Rightarrow> peerId \<Rightarrow>
     (error + bytes) \<times> 'k EncryptionService" where
  "decrypt c s ciphertext iv peerId =
     (case sharedKeys s peerId of
        None \<Rightarrow> (Inl NoKeyError, s)
      | Some sharedKey \<Rightarrow>
          (case aesGcmDecrypt c sharedKey iv ciphertext of
             None \<Rightarrow> (Inl DecryptionError, s)
           | Some decrypted \<Rightarrow> (Inr decrypted, s)))"

definition removeSharedKey :: "'k EncryptionService \<Rightarrow> peerId \<Rightarrow> 'k EncryptionService" where
  "removeSharedKey s peerId = s\<lparr>sharedKeys := (sharedKeys s)(peerId := None)\<rparr>"

definition rotateKey :: "'k EncryptionService \<Rightarrow> peerId \<Rightarrow> 'k EncryptionService" where
  "rotateKey s peerId = removeSharedKey s peerId"

definition cleanup :: "'k EncryptionService \<Rightarrow> 'k EncryptionService" where
  "cleanup s = s\<lparr>sharedKeys := Map.empty, keyPair := None\<rparr>"

text \<open>
  The states an \<^verbatim>\<open>EncryptionService\<close> object can be in: those its public methods
  lead to from the freshly constructed object.
\<close>

inductive reachableES :: "'k SubtleCrypto \<Rightarrow> 'k EncryptionService \<Rightarrow> bool" for c where
  rNew: "reachableES c newEncryptionService"
| rInitialize: "reachableES c s \<Longrightarrow> reachableES c (snd (initialize g s))"
| rGetPublicKey: "reachableES c s \<Longrightarrow> reachableES c (snd (getPublicKey c s))"
| rEstablish: "reachableES c s \<Longrightarrow> reachableES c (snd (establishSharedKey c s p pk))"
| rEncrypt: "reachableES c s \<Longrightarrow> reachableES c (snd (encrypt c s iv m p))"
| rDecrypt: "reachableES c s \<Longrightarrow> reachableES c (snd (decrypt c s ct iv p))"
| rRemove: "reachableES c s \<Longrightarrow> reachableES c (removeSharedKey s p)"
| rRotate: "reachableES c s \<Longrightarrow> reachableES c (rotateKey s p)"
| rCleanup: "reachableES c s \<Longrightarrow> reachableES c (cleanup s)"

section \<open>A small instance of the platform\<close>

text \<open>
  Theorems that assume something of the platform are exercised on this instance: keys are
  bytes, a public key is exported as the one-byte array holding it, the agreed key is the
  sum of the two halves, and a ciphertext is the key byte (standing for the
  authentication tag) followed by the shifted plaintext.
\<close>

definition toyImportKey :: "bytes \<Rightarrow> 8 word option" where
  "toyImportKey bs = (case bs of [b] \<Rightarrow> Some b | _ \<Rightarrow> None)"

definition toyEncrypt :: "8 word \<Rightarrow> bytes \<Rightarrow> bytes \<Rightarrow> bytes option" where
  "toyEncrypt k iv m = Some (k # map (\<lambda>b. b + k) m)"

definition toyDecrypt :: "8 word \<Rightarrow> bytes \<Rightarrow> bytes \<Rightarrow> bytes option" where
  "toyDecrypt k iv ct =
     (case ct of [] \<Rightarrow> None | t # r \<Rightarrow> if t = k then Some (map (\<lambda>b. b - k) r) else None)"

definition toySubtle :: "8 word SubtleCrypto" where
  "toySubtle = \<lparr>importKey = toyImportKey, exportKey = (\<lambda>k. [k]),
     deriveKey = (\<lambda>pub priv. Some (pub + priv)),
     aesGcmEncrypt = toyEncrypt, aesGcmDecrypt = toyDecrypt\<rparr>"

definition toyPair :: "8 word \<Rightarrow> 8 word CryptoKeyPair" where
  "toyPair k = \<lparr>privateKey = k, publicKey = k\<rparr>"


section \<open>WebRTCManager\<close>

subsection \<open>Frames, events and the platform objects\<close>

text \<open>
  The frames of the session channel (\<^verbatim>\<open>JSON.stringify\<close> on one side,
  \<^verbatim>\<open>JSON.parse\<close> and a \<^verbatim>\<open>switch\<close> on \<^verbatim>\<open>message.type\<close> on the other).
  \<open>KeyExchangeFrame publicKey sender timestamp isResponse\<close>: the initiating frame has
  no \<^verbatim>\<open>isResponse\<close> field, which reads as false. \<open>UnknownFrame\<close> is any other
  type tag.
\<close>

datatype frame =
  KeyExchangeFrame bytes peerId nat bool
| EncryptedMessageFrame bytes bytes peerId
| TypingIndicatorFrame bool peerId
| UnknownFrame

text \<open>
  The manager reports through nullable callback fields (\<^verbatim>\<open>this.onX?.(...)\<close>). The
  model records every such call, in order, in the field \<open>events\<close> of the manager.
\<close>

datatype event =
  PeerDiscovered peerId string
| PeerDisconnected peerId
| MessageReceived string peerId bool
| EncryptionEstablished peerId
| ConnectionStatusChanged string
| TypingIndicator peerId bool
| PeerConnectionStateChanged peerId string

datatype readyState = RSConnecting | RSOpen | RSClosing | RSClosed

record RTCDataChannel =
  readyState :: readyState
  sent :: "frame list"

datatype signalingState = Stable | HaveLocalOffer | HaveRemoteOffer

datatype sdpType = Offer | Answer

record RTCSessionDescriptionInit =
  sdpType :: sdpType
  sdp :: string

type_synonym RTCIceCandidateInit = string

text \<open>
  \<open>addIceCandidateCalls\<close> lists the arguments of the \<^verbatim>\<open>addIceCandidate\<close> calls made
  on the connection, in call order; \<open>iceCandidates\<close> lists those the platform accepted.
\<close>

record RTCPeerConnection =
  connectionState :: string
  signalingState :: signalingState
  remoteDescription :: "RTCSessionDescriptionInit option"
  localDescription :: "RTCSessionDescriptionInit option"
  addIceCandidateCalls :: "RTCIceCandidateInit list"
  iceCandidates :: "RTCIceCandidateInit list"

datatype signal =
  JoinMsg peerId string
| OfferMsg peerId RTCSessionDescriptionInit
| AnswerMsg peerId RTCSessionDescriptionInit
| IceCandidateMsg peerId RTCIceCandidateInit

record WebSocket =
  wsOpen :: bool
  wsSent :: "signal list"

text \<open>
  The rest of the platform: what the transport accepts and produces, and the encoding of
  the application payload \<open>(content, timestamp, sender)\<close>
  (\<^verbatim>\<open>new TextEncoder().encode(JSON.stringify(messageData))\<close> and back).
\<close>

record 'k Platform =
  subtle :: "'k SubtleCrypto"
  encodeMessageData :: "string \<times> nat \<times> peerId \<Rightarrow> bytes"
  decodeMessageData :: "bytes \<Rightarrow> (string \<times> nat \<times> peerId) option"
  remoteDescriptionAccepted :: "RTCPeerConnection \<Rightarrow> RTCSessionDescriptionInit \<Rightarrow> bool"
  localDescriptionAccepted :: "RTCPeerConnection \<Rightarrow> RTCSessionDescriptionInit \<Rightarrow> bool"
  candidateAccepted :: "RTCPeerConnection \<Rightarrow> RTCIceCandidateInit \<Rightarrow> bool"
  createOfferSdp :: "RTCPeerConnection \<Rightarrow> string option"
  createAnswerSdp :: "RTCPeerConnection \<Rightarrow> string option"

definition newPeerConnection :: RTCPeerConnection where
  "newPeerConnection = \<lparr>connectionState = ''new'', signalingState = Stable,
     remoteDescription = None, localDescription = None,
     addIceCandidateCalls = [], iceCandidates = []\<rparr>"

definition newDataChannel :: RTCDataChannel where
  "newDataChannel = \<lparr>readyState = RSConnecting, sent = []\<rparr>"


definition setLocalDescription ::
  "'k Platform \<Rightarrow> RTCPeerConnection \<Rightarrow> RTCSessionDescriptionInit \<Rightarrow> RTCPeerConnection option" where
  "setLocalDescription pf pc d =
     (if localDescriptionAccepted pf pc d
      then Some (pc\<lparr>localDescription := Some d,
             signalingState := (case sdpType d of Offer \<Rightarrow> HaveLocalOffer | Answer \<Rightarrow> Stable)\<rparr>)
      else None)"


subsection \<open>The manager's state\<close>

text \<open>
  A callback runs in the middle of the method that makes it and sees the manager as it is
  at that moment. \<open>'k tracking\<close> is what it can see of the per-peer structures: the four
  maps of the manager and the key map of the encryption service. The field
  \<open>callbackViews\<close> of the manager records, for every callback in \<open>events\<close> and in the
  same order, the structures as they were when the callback was made.
\<close>

record 'k tracking =
  trackedConnections :: "peerId \<rightharpoonup> RTCPeerConnection"
  trackedChannels :: "peerId \<rightharpoonup> RTCDataChannel"
  trackedCandidates :: "peerId \<rightharpoonup> RTCIceCandidateInit list"
  trackedStates :: "peerId \<rightharpoonup> string"
  trackedKeys :: "peerId \<rightharpoonup> 'k"

record 'k WebRTCManager =
  nodeId :: peerId
  username :: string
  encryptionService :: "'k EncryptionService"
  signalingSocket :: "WebSocket option"
  peerConnections :: "peerId \<rightharpoonup> RTCPeerConnection"
  dataChannels :: "peerId \<rightharpoonup> RTCDataChannel"
  pendingIceCandidates :: "peerId \<rightharpoonup> RTCIceCandidateInit list"
  connectionStates :: "peerId \<rightharpoonup> string"
  discoveryInterval :: bool
  events :: "event list"
  callbackViews :: "'k tracking list"

text \<open>
  Each handler runs to its end before the next one starts: the model does not interleave
  two handlers at their \<^verbatim>\<open>await\<close> points. A peer connection or a data channel is
  held by value in its map, so a handler that changes the object writes it back under the
  peer's id.
\<close>

definition newWebRTCManager ::
  "peerId \<Rightarrow> string \<Rightarrow> 'k EncryptionService \<Rightarrow> 'k WebRTCManager" where
  "newWebRTCManager nid uname es =
     \<lparr>nodeId = nid, username = uname, encryptionService = es, signalingSocket = None,
      peerConnections = Map.empty, dataChannels = Map.empty,
      pendingIceCandidates = Map.empty, connectionStates = Map.empty,
      discoveryInterval = False, events = [], callbackViews = []\<rparr>"

definition tracking :: "'k WebRTCManager \<Rightarrow> 'k tracking" where
  "tracking s =
     \<lparr>trackedConnections = peerConnections s, trackedChannels = dataChannels s,
      trackedCandidates = pendingIceCandidates s, trackedStates = connectionStates s,
      trackedKeys = sharedKeys (encryptionService s)\<rparr>"

definition emit :: "event \<Rightarrow> 'k WebRTCManager \<Rightarrow> 'k WebRTCManager" where
  "emit e s = s\<lparr>events := events s @ [e], callbackViews := callbackViews s @ [tracking s]\<rparr>"

definition sendToSignalingServer :: "signal \<Rightarrow> 'k WebRTCManager \<Rightarrow> 'k WebRTCManager" where
  "sendToSignalingServer m s =
     (case signalingSocket s of
        None \<Rightarrow> s
      | Some ws \<Rightarrow>
          if wsOpen ws then s\<lparr>signalingSocket := Some (ws\<lparr>wsSent := wsSent ws @ [m]\<rparr>)\<rparr>
          else s)"

definition dataChannelSend ::
  "peerId \<Rightarrow> RTCDataChannel \<Rightarrow> frame \<Rightarrow> 'k WebRTCManager \<Rightarrow> 'k WebRTCManager" where
  "dataChannelSend peerId dataChannel f s =
     s\<lparr>dataChannels := (dataChannels s)(peerId \<mapsto> dataChannel\<lparr>sent := sent dataChannel @ [f]\<rparr>)\<rparr>"

subsection \<open>Teardown\<close>

text \<open>
  \<open>handlePeerDisconnected\<close> is synchronous in the source (no \<^verbatim>\<open>await\<close>): one
  transition. The closed connection is dropped from the map in the same step, so
  \<^verbatim>\<open>peerConnection.close()\<close> leaves nothing to read in the model.
\<close>

definition handlePeerDisconnected :: "'k WebRTCManager \<Rightarrow> peerId \<Rightarrow> 'k WebRTCManager" where
  "handlePeerDisconnected s peerId =
     (let s1 = (case peerConnections s peerId of
                  None \<Rightarrow> s
                | Some peerConnection \<Rightarrow> s\<lparr>peerConnections := (peerConnections s)(peerId := None)\<rparr>);
          s2 = s1\<lparr>dataChannels := (dataChannels s1)(peerId := None)\<rparr>;
          s3 = s2\<lparr>pendingIceCandidates := (pendingIceCandidates s2)(peerId := None)\<rparr>;
          s4 = s3\<lparr>connectionStates := (connectionStates s3)(peerId := None)\<rparr>;
          s5 = s4\<lparr>encryptionService := removeSharedKey (encryptionService s4) peerId\<rparr>
      in emit (PeerDisconnected peerId) s5)"

definition disconnectFromPeer :: "'k WebRTCManager \<Rightarrow> peerId \<Rightarrow> 'k WebRTCManager" where
  "disconnectFromPeer s peerId = handlePeerDisconnected s peerId"

definition disconnect :: "'k WebRTCManager \<Rightarrow> 'k WebRTCManager" where
  "disconnect s =
     s\<lparr>discoveryInterval := False, peerConnections := Map.empty, dataChannels := Map.empty,
       pendingIceCandidates := Map.empty, connectionStates := Map.empty,
       signalingSocket := None\<rparr>"

subsection \<open>Key exchange over the session channel\<close>

text \<open>
  \<open>now\<close> is the value of \<^verbatim>\<open>Date.now()\<close>. An exception inside the
  \<^verbatim>\<open>try\<close> block is caught and logged: the handler ends there, with the state it
  had reached.
\<close>

definition performKeyExchange ::
  "'k Platform \<Rightarrow> 'k WebRTCManager \<Rightarrow> peerId \<Rightarrow> nat \<Rightarrow> 'k WebRTCManager" where
  "performKeyExchange pf s peerId now =
     (case dataChannels s peerId of
        None \<Rightarrow> s
      | Some dataChannel \<Rightarrow>
          if readyState dataChannel \<noteq> RSOpen then s
          else if hasSharedKey (encryptionService s) peerId
          then emit (EncryptionEstablished peerId) s
          else (case getPublicKey (subtle pf) (encryptionService s) of
                  (Inl e, es) \<Rightarrow> s\<lparr>encryptionService := es\<rparr>
                | (Inr ownPublicKey, es) \<Rightarrow>
                    dataChannelSend peerId dataChannel
                      (KeyExchangeFrame ownPublicKey (nodeId s) now False)
                      (s\<lparr>encryptionService := es\<rparr>)))"

definition handleKeyExchange ::
  "'k Platform \<Rightarrow> 'k WebRTCManager \<Rightarrow> bytes \<Rightarrow> bool \<Rightarrow> peerId \<Rightarrow> nat \<Rightarrow> 'k WebRTCManager" where
  "handleKeyExchange pf s peerPublicKey isResponse peerId now =
     (if hasSharedKey (encryptionService s) peerId
      then emit (EncryptionEstablished peerId) s
      else (case establishSharedKey (subtle pf) (encryptionService s) peerId peerPublicKey of
              (Inl e, es) \<Rightarrow> s\<lparr>encryptionService := es\<rparr>
            | (Inr u, es) \<Rightarrow>
                (let s1 = s\<lparr>encryptionService := es\<rparr> in
                 case dataChannels s1 peerId of
                   None \<Rightarrow> emit (EncryptionEstablished peerId) s1
                 | Some dataChannel \<Rightarrow>
                     if readyState dataChannel = RSOpen \<and> \<not> isResponse
                     then (case getPublicKey (subtle pf) (encryptionService s1) of
                             (Inl e, es') \<Rightarrow> s1\<lparr>encryptionService := es'\<rparr>
                           | (Inr ownPublicKey, es') \<Rightarrow>
                               emit (EncryptionEstablished peerId)
                                 (dataChannelSend peerId dataChannel
                                    (KeyExchangeFrame ownPublicKey (nodeId s1) now True)
                                    (s1\<lparr>encryptionService := es'\<rparr>)))
                     else emit (EncryptionEstablished peerId) s1)))"

subsection \<open>Messages\<close>

definition handleEncryptedMessage ::
  "'k Platform \<Rightarrow> 'k WebRTCManager \<Rightarrow> bytes \<Rightarrow> bytes \<Rightarrow> peerId \<Rightarrow> 'k WebRTCManager" where
  "handleEncryptedMessage pf s ciphertext iv peerId =
     (case decrypt (subtle pf) (encryptionService s) ciphertext iv peerId of
        (Inl e, es) \<Rightarrow> s\<lparr>encryptionService := es\<rparr>
      | (Inr decryptedContent, es) \<Rightarrow>
          (case decodeMessageData pf decryptedContent of
             None \<Rightarrow> s\<lparr>encryptionService := es\<rparr>
           | Some (content, timestamp, sender) \<Rightarrow>
               emit (MessageReceived content peerId True) (s\<lparr>encryptionService := es\<rparr>)))"

text \<open>
  \<open>handleDataChannelMessage\<close>: data that \<^verbatim>\<open>JSON.parse\<close> rejects raises inside the
  \<^verbatim>\<open>try\<close> and changes nothing, as \<open>UnknownFrame\<close> does.
\<close>

definition handleDataChannelMessage ::
  "'k Platform \<Rightarrow> 'k WebRTCManager \<Rightarrow> frame \<Rightarrow> peerId \<Rightarrow> nat \<Rightarrow> 'k WebRTCManager" where
  "handleDataChannelMessage pf s message peerId now =
     (case message of
        KeyExchangeFrame peerPublicKey sender timestamp isResponse \<Rightarrow>
          handleKeyExchange pf s peerPublicKey isResponse peerId now
      | EncryptedMessageFrame ciphertext iv sender \<Rightarrow>
          handleEncryptedMessage pf s ciphertext iv peerId
      | TypingIndicatorFrame typing sender \<Rightarrow> emit (TypingIndicator peerId typing) s
      | UnknownFrame \<Rightarrow> s)"



subsection \<open>Negotiation and candidates\<close>



definition setupDataChannel ::
  "'k WebRTCManager \<Rightarrow> RTCDataChannel \<Rightarrow> peerId \<Rightarrow> 'k WebRTCManager" where
  "setupDataChannel s dataChannel peerId =
     s\<lparr>dataChannels := (dataChannels s)(peerId \<mapsto> dataChannel)\<rparr>"

definition connectToPeer :: "'k Platform \<Rightarrow> 'k WebRTCManager \<Rightarrow> peerId \<Rightarrow> 'k WebRTCManager" where
  "connectToPeer pf s peerId =
     (if (case peerConnections s peerId of
            None \<Rightarrow> False
          | Some existingConnection \<Rightarrow> connectionState existingConnection = ''connected'')
      then s
      else (let peerConnection = newPeerConnection;
                s1 = s\<lparr>peerConnections := (peerConnections s)(peerId \<mapsto> peerConnection)\<rparr>;
                s2 = setupDataChannel s1 newDataChannel peerId
            in case createOfferSdp pf peerConnection of
                 None \<Rightarrow> handlePeerDisconnected s2 peerId
               | Some offerSdp \<Rightarrow>
                   (let offer = \<lparr>sdpType = Offer, sdp = offerSdp\<rparr> in
                    case setLocalDescription pf peerConnection offer of
                      None \<Rightarrow> handlePeerDisconnected s2 peerId
                    | Some pc' \<Rightarrow>
                        sendToSignalingServer (OfferMsg peerId offer)
                          (s2\<lparr>peerConnections := (peerConnections s2)(peerId \<mapsto> pc')\<rparr>))))"



subsection \<open>Events raised by the platform objects\<close>

text \<open>
  The handlers installed by \<^verbatim>\<open>createPeerConnection\<close> and \<^verbatim>\<open>setupDataChannel\<close>.
  \<open>dataChannelOnOpen\<close> is the platform moving the channel to \<^verbatim>\<open>'open'\<close>; the handler
  itself only starts the timer whose expiry is \<open>performKeyExchange\<close>.
  \<open>onconnectionstatechange\<close> takes the state the platform reports, which the platform
  has written to the connection's \<^verbatim>\<open>connectionState\<close> before the handler reads it.
\<close>

definition dataChannelOnOpen :: "'k WebRTCManager \<Rightarrow> peerId \<Rightarrow> 'k WebRTCManager" where
  "dataChannelOnOpen s peerId =
     (case dataChannels s peerId of
        None \<Rightarrow> s
      | Some dataChannel \<Rightarrow>
          s\<lparr>dataChannels := (dataChannels s)(peerId \<mapsto> dataChannel\<lparr>readyState := RSOpen\<rparr>)\<rparr>)"



definition onconnectionstatechange ::
  "'k WebRTCManager \<Rightarrow> peerId \<Rightarrow> string \<Rightarrow> 'k WebRTCManager" where
  "onconnectionstatechange s peerId state =
     (let s0 = (case peerConnections s peerId of
                  None \<Rightarrow> s
                | Some peerConnection \<Rightarrow>
                    s\<lparr>peerConnections :=
                        (peerConnections s)(peerId \<mapsto> peerConnection\<lparr>connectionState := state\<rparr>)\<rparr>);
          s1 = s0\<lparr>connectionStates := (connectionStates s0)(peerId \<mapsto> state)\<rparr>;
          s2 = emit (PeerConnectionStateChanged peerId state) s1
      in if state = ''failed'' then handlePeerDisconnected s2 peerId else s2)"

subsection \<open>The states a manager can be in\<close>


section \<open>SecureChatProvider\<close>

text \<open>
  The React state of the provider. \<open>peer_id\<close>, \<open>peer_connectionState\<close> and
  \<open>message_id\<close> are the fields \<^verbatim>\<open>id\<close> and \<^verbatim>\<open>connectionState\<close> of the source's
  \<^verbatim>\<open>Peer\<close> and \<^verbatim>\<open>Message\<close>.
\<close>

record Peer =
  peer_id :: peerId
  name :: string
  online :: bool
  peer_connectionState :: string
  encryptionEstablished :: bool

record Message =
  message_id :: string
  content :: string
  sender :: peerId
  senderName :: string
  timestamp :: nat
  encrypted :: bool
  isOwn :: bool

text \<open>
  \<open>effectPeers\<close> and \<open>effectSelectedPeer\<close> are the values of \<^verbatim>\<open>peers\<close> and
  \<^verbatim>\<open>selectedPeer\<close> that the callbacks installed by the effect closed over: the
  effect's dependency list names neither, so the callbacks keep reading the values of the
  render that ran the effect.
\<close>

record 'k SecureChatProvider =
  peers :: "Peer list"
  selectedPeer :: "Peer option"
  messages :: "Message list"
  connectionStatus :: string
  isTyping :: bool
  webrtcManagerRef :: "'k WebRTCManager option"
  nodeIdRef :: peerId
  usernameProp :: string
  effectPeers :: "Peer list"
  effectSelectedPeer :: "Peer option"

text \<open>
  The callbacks the provider installs on the manager. A state setter called with an
  updater (\<^verbatim>\<open>setPeers(prev => ...)\<close>) is the updater applied to the state.
  \<open>newId\<close> and \<open>date\<close> are the values of \<^verbatim>\<open>createSecureId()\<close> and
  \<^verbatim>\<open>new Date()\<close>.
\<close>

definition onPeerDiscovered ::
  "'k SecureChatProvider \<Rightarrow> peerId \<Rightarrow> string \<Rightarrow> 'k SecureChatProvider" where
  "onPeerDiscovered p peerId peerUsername =
     p\<lparr>peers :=
         (case find (\<lambda>q. peer_id q = peerId) (peers p) of
            Some exists \<Rightarrow>
              map (\<lambda>q. if peer_id q = peerId then q\<lparr>online := True, name := peerUsername\<rparr> else q)
                (peers p)
          | None \<Rightarrow>
              peers p @ [\<lparr>peer_id = peerId, name = peerUsername, online = True,
                          peer_connectionState = ''disconnected'',
                          encryptionEstablished = False\<rparr>])\<rparr>"

definition onPeerDisconnected ::
  "'k SecureChatProvider \<Rightarrow> peerId \<Rightarrow> 'k SecureChatProvider" where
  "onPeerDisconnected p peerId =
     p\<lparr>peers :=
         map (\<lambda>q. if peer_id q = peerId
                   then q\<lparr>online := False, peer_connectionState := ''disconnected'',
                          encryptionEstablished := False\<rparr>
                   else q) (peers p)\<rparr>"

definition onMessageReceived ::
  "'k SecureChatProvider \<Rightarrow> string \<Rightarrow> peerId \<Rightarrow> bool \<Rightarrow> string \<Rightarrow> nat \<Rightarrow>
     'k SecureChatProvider" where
  "onMessageReceived p msgContent msgSender msgEncrypted newId date =
     (let newMessage =
            \<lparr>message_id = newId, content = msgContent, sender = msgSender,
             senderName =
               (case find (\<lambda>q. peer_id q = msgSender) (effectPeers p) of
                  Some senderPeer \<Rightarrow>
                    if name senderPeer \<noteq> [] then name senderPeer else take 12 msgSender
                | None \<Rightarrow> take 12 msgSender),
             timestamp = date, encrypted = msgEncrypted, isOwn = False\<rparr>
      in p\<lparr>messages := messages p @ [newMessage]\<rparr>)"

definition onEncryptionEstablished ::
  "'k SecureChatProvider \<Rightarrow> peerId \<Rightarrow> 'k SecureChatProvider" where
  "onEncryptionEstablished p peerId =
     p\<lparr>peers :=
         map (\<lambda>q. if peer_id q = peerId then q\<lparr>encryptionEstablished := True\<rparr> else q)
           (peers p)\<rparr>"

definition onPeerConnectionStateChanged ::
  "'k SecureChatProvider \<Rightarrow> peerId \<Rightarrow> string \<Rightarrow> 'k SecureChatProvider" where
  "onPeerConnectionStateChanged p peerId state =
     p\<lparr>peers :=
         map (\<lambda>q. if peer_id q = peerId then q\<lparr>peer_connectionState := state\<rparr> else q)
           (peers p)\<rparr>"

definition onTypingIndicator ::
  "'k SecureChatProvider \<Rightarrow> peerId \<Rightarrow> bool \<Rightarrow> 'k SecureChatProvider" where
  "onTypingIndicator p peerId typing =
     (case effectSelectedPeer p of
        None \<Rightarrow> p
      | Some sp \<Rightarrow> if peer_id sp = peerId then p\<lparr>isTyping := typing\<rparr> else p)"

definition callback ::
  "string \<Rightarrow> nat \<Rightarrow> 'k SecureChatProvider \<Rightarrow> event \<Rightarrow> 'k SecureChatProvider" where
  "callback newId date p e =
     (case e of
        PeerDiscovered peerId peerUsername \<Rightarrow> onPeerDiscovered p peerId peerUsername
      | PeerDisconnected peerId \<Rightarrow> onPeerDisconnected p peerId
      | MessageReceived c from enc \<Rightarrow> onMessageReceived p c from enc newId date
      | EncryptionEstablished peerId \<Rightarrow> onEncryptionEstablished p peerId
      | ConnectionStatusChanged status \<Rightarrow> p\<lparr>connectionStatus := status\<rparr>
      | TypingIndicator peerId typing \<Rightarrow> onTypingIndicator p peerId typing
      | PeerConnectionStateChanged peerId state \<Rightarrow> onPeerConnectionStateChanged p peerId state)"

text \<open>
  \<open>withManager\<close> is the wiring between the two objects: the provider keeps the manager
  in a ref, and whatever the manager does reaches the provider through the callbacks it
  calls on the way, in the order it calls them. \<open>f\<close> is the manager's method or handler;
  the callbacks run for the events \<open>f\<close> added.
\<close>

definition withManager ::
  "('k WebRTCManager \<Rightarrow> 'k WebRTCManager) \<Rightarrow> string \<Rightarrow> nat \<Rightarrow> 'k SecureChatProvider \<Rightarrow>
     'k SecureChatProvider" where
  "withManager f newId date p =
     (case webrtcManagerRef p of
        None \<Rightarrow> p
      | Some m \<Rightarrow>
          (let m' = f m in
           foldl (callback newId date) (p\<lparr>webrtcManagerRef := Some m'\<rparr>)
             (drop (length (events m)) (events m'))))"


definition selectPeer ::
  "'k Platform \<Rightarrow> 'k SecureChatProvider \<Rightarrow> Peer \<Rightarrow> string \<Rightarrow> nat \<Rightarrow> 'k SecureChatProvider" where
  "selectPeer pf p peer newId date =
     withManager (\<lambda>m. connectToPeer pf m (peer_id peer)) newId date
       (p\<lparr>selectedPeer := Some peer, messages := [], isTyping := False\<rparr>)"

definition disconnectPeer ::
  "'k SecureChatProvider \<Rightarrow> peerId \<Rightarrow> string \<Rightarrow> nat \<Rightarrow> 'k SecureChatProvider" where
  "disconnectPeer p peerId newId date =
     (let p1 = withManager (\<lambda>m. disconnectFromPeer m peerId) newId date p;
          p2 = p1\<lparr>peers := filter (\<lambda>q. peer_id q \<noteq> peerId) (peers p1)\<rparr>
      in if (case selectedPeer p of None \<Rightarrow> False | Some sp \<Rightarrow> peer_id sp = peerId)
         then p2\<lparr>selectedPeer := None, messages := []\<rparr>
         else p2)"

text \<open>
  The provider reaches the manager's handlers only through the platform's events; the two
  that end a peer's session are named here: the connection reporting
  \<^verbatim>\<open>'failed'\<close>, and a teardown started inside the manager (a
  \<^verbatim>\<open>peer_disconnected\<close> envelope, a negotiation error, the ICE timeout).
\<close>

definition peerConnectionFailed ::
  "'k SecureChatProvider \<Rightarrow> peerId \<Rightarrow> string \<Rightarrow> nat \<Rightarrow> 'k SecureChatProvider" where
  "peerConnectionFailed p peerId newId date =
     withManager (\<lambda>m. onconnectionstatechange m peerId ''failed'') newId date p"

definition peerTornDown ::
  "'k SecureChatProvider \<Rightarrow> peerId \<Rightarrow> string \<Rightarrow> nat \<Rightarrow> 'k SecureChatProvider" where
  "peerTornDown p peerId newId date =
     withManager (\<lambda>m. handlePeerDisconnected m peerId) newId date p"

section \<open>Two managers joined by a session channel\<close>

text \<open>
  The channel is created with \<^verbatim>\<open>{ ordered: true }\<close>: what one side hands to
  \<^verbatim>\<open>send\<close> reaches the other side's \<^verbatim>\<open>onmessage\<close> in the same order, each frame
  once. \<open>deliveredToA\<close> counts the frames of \<open>nodeB\<close>'s channel that \<open>nodeA\<close> has handled.
  \<open>clock d i\<close> is the value of \<^verbatim>\<open>Date.now()\<close> in the handler of the \<open>i\<close>-th frame
  delivered in direction \<open>d\<close>.
\<close>

record 'k network =
  nodeA :: "'k WebRTCManager"
  nodeB :: "'k WebRTCManager"
  deliveredToA :: nat
  deliveredToB :: nat

datatype delivery = ToA | ToB

definition outbox :: "'k WebRTCManager \<Rightarrow> peerId \<Rightarrow> frame list" where
  "outbox m peerId = (case dataChannels m peerId of None \<Rightarrow> [] | Some dc \<Rightarrow> sent dc)"

definition deliver ::
  "'k Platform \<Rightarrow> (delivery \<Rightarrow> nat \<Rightarrow> nat) \<Rightarrow> 'k network \<Rightarrow> delivery \<Rightarrow> 'k network" where
  "deliver pf clock n d =
     (case d of
        ToA \<Rightarrow>
          (let out = outbox (nodeB n) (nodeId (nodeA n)); i = deliveredToA n in
           if i < length out
           then n\<lparr>nodeA := handleDataChannelMessage pf (nodeA n) (out ! i) (nodeId (nodeB n))
                              (clock ToA i),
                  deliveredToA := Suc i\<rparr>
           else n)
      | ToB \<Rightarrow>
          (let out = outbox (nodeA n) (nodeId (nodeB n)); i = deliveredToB n in
           if i < length out
           then n\<lparr>nodeB := handleDataChannelMessage pf (nodeB n) (out ! i) (nodeId (nodeA n))
                              (clock ToB i),
                  deliveredToB := Suc i\<rparr>
           else n))"

fun run ::
  "'k Platform \<Rightarrow> (delivery \<Rightarrow> nat \<Rightarrow> nat) \<Rightarrow> 'k network \<Rightarrow> delivery list \<Rightarrow> 'k network" where
  "run pf clock n [] = n"
| "run pf clock n (d # ds) = run pf clock (deliver pf clock n d) ds"

definition quiescent :: "'k network \<Rightarrow> bool" where
  "quiescent n \<longleftrightarrow>
     deliveredToA n = length (outbox (nodeB n) (nodeId (nodeA n))) \<and>
     deliveredToB n = length (outbox (nodeA n) (nodeId (nodeB n)))"

text \<open>
  \<open>sessionNode\<close> is a node with an initialised encryption service and an open channel to
  \<open>peer\<close>. \<open>crossedStart\<close> is the crossed start of two managers that have handled every
  frame sent to them so far: both sides run \<open>performKeyExchange\<close> before either has
  received the other's frame.
\<close>

definition sessionNode ::
  "peerId \<Rightarrow> string \<Rightarrow> 'k CryptoKeyPair \<Rightarrow> peerId \<Rightarrow> 'k WebRTCManager" where
  "sessionNode nid uname kp peer =
     dataChannelOnOpen
       (setupDataChannel
          (newWebRTCManager nid uname (snd (initialize (Some kp) newEncryptionService)))
          newDataChannel peer)
       peer"

definition crossedStart ::
  "'k Platform \<Rightarrow> 'k WebRTCManager \<Rightarrow> nat \<Rightarrow> 'k WebRTCManager \<Rightarrow> nat \<Rightarrow> 'k network" where
  "crossedStart pf sA tA sB tB =
     \<lparr>nodeA = performKeyExchange pf sA (nodeId sB) tA,
      nodeB = performKeyExchange pf sB (nodeId sA) tB,
      deliveredToA = length (outbox sB (nodeId sA)),
      deliveredToB = length (outbox sA (nodeId sB))\<rparr>"

definition countEvent :: "event \<Rightarrow> 'k WebRTCManager \<Rightarrow> nat" where
  "countEvent e m = length (filter ((=) e) (events m))"

section \<open>An instance of the rest of the platform\<close>

definition toyPlatform :: "8 word Platform" where
  "toyPlatform =
     \<lparr>subtle = toySubtle,
      encodeMessageData = (\<lambda>(c, t, s). map (\<lambda>ch. of_nat (of_char ch)) c),
      decodeMessageData = (\<lambda>bs. Some (map (\<lambda>b. char_of (unat b)) bs, 0, [])),
      remoteDescriptionAccepted = (\<lambda>pc d. True),
      localDescriptionAccepted = (\<lambda>pc d. True),
      candidateAccepted = (\<lambda>pc c. True),
      createOfferSdp = (\<lambda>pc. Some ''offer''),
      createAnswerSdp = (\<lambda>pc. Some ''answer'')\<rparr>"

section \<open>Notions used to state the properties\<close>



text \<open>
  The states a node of the crossed handshake passes through, written out from the state
  \<open>s\<close> it starts in: \<open>i\<close> is the number of key-exchange frames it has handled, \<open>kp\<close>
  its key pair, \<open>dc\<close> its channel to \<open>peer\<close>, \<open>k\<close> the key it derives, \<open>t0\<close> and
  \<open>t1\<close> the timestamps of the two frames it sends.
\<close>

definition nodeState ::
  "'k Platform \<Rightarrow> 'k WebRTCManager \<Rightarrow> 'k CryptoKeyPair \<Rightarrow> RTCDataChannel \<Rightarrow> peerId \<Rightarrow> 'k \<Rightarrow>
     nat \<Rightarrow> nat \<Rightarrow> nat \<Rightarrow> 'k WebRTCManager" where
  "nodeState pf s kp dc peer k t0 t1 i =
     (let base =
        s\<lparr>encryptionService :=
            (encryptionService s)\<lparr>sharedKeys :=
               (if i = 0 then sharedKeys (encryptionService s)
                else (sharedKeys (encryptionService s))(peer \<mapsto> k))\<rparr>,
          dataChannels :=
            (dataChannels s)(peer \<mapsto> dc\<lparr>sent := sent dc @
               KeyExchangeFrame (exportKey (subtle pf) (publicKey kp)) (nodeId s) t0 False #
               (if i = 0 then []
                else [KeyExchangeFrame (exportKey (subtle pf) (publicKey kp)) (nodeId s) t1
                        True])\<rparr>)\<rparr>
      in base\<lparr>events := events s @
                (if i = 0 then [] else if i = 1 then [EncryptionEstablished peer]
                 else [EncryptionEstablished peer, EncryptionEstablished peer]),
              callbackViews := callbackViews s @
                (if i = 0 then [] else if i = 1 then [tracking base]
                 else [tracking base, tracking base])\<rparr>)"

definition netState ::
  "'k Platform \<Rightarrow> (delivery \<Rightarrow> nat \<Rightarrow> nat) \<Rightarrow>
     'k WebRTCManager \<Rightarrow> 'k CryptoKeyPair \<Rightarrow> RTCDataChannel \<Rightarrow> 'k \<Rightarrow> nat \<Rightarrow>
     'k WebRTCManager \<Rightarrow> 'k CryptoKeyPair \<Rightarrow> RTCDataChannel \<Rightarrow> 'k \<Rightarrow> nat \<Rightarrow>
     nat \<Rightarrow> nat \<Rightarrow> 'k network" where
  "netState pf clock sA kpA dcA kA tA sB kpB dcB kB tB i j =
     \<lparr>nodeA = nodeState pf sA kpA dcA (nodeId sB) kA tA (clock ToA (length (sent dcB))) i,
      nodeB = nodeState pf sB kpB dcB (nodeId sA) kB tB (clock ToB (length (sent dcA))) j,
      deliveredToA = length (sent dcB) + i, deliveredToB = length (sent dcA) + j\<rparr>"

text \<open>
  What the crossed start asks of one side: the manager \<open>s\<close> is initialised with the key
  pair \<open>kp\<close>, stores no key for the other side yet, has the open channel \<open>dc\<close> to it,
  and the platform imports the public key the other side exports and derives \<open>k\<close> from
  it.
\<close>

definition handshakeReady ::
  "'k Platform \<Rightarrow> 'k WebRTCManager \<Rightarrow> 'k CryptoKeyPair \<Rightarrow> RTCDataChannel \<Rightarrow>
     'k WebRTCManager \<Rightarrow> 'k CryptoKeyPair \<Rightarrow> 'k \<Rightarrow> bool" where
  "handshakeReady pf s kp dc other kpOther k \<longleftrightarrow>
     keyPair (encryptionService s) = Some kp \<and>
     sharedKeys (encryptionService s) (nodeId other) = None \<and>
     dataChannels s (nodeId other) = Some dc \<and> readyState dc = RSOpen \<and>
     (case importKey (subtle pf) (exportKey (subtle pf) (publicKey kpOther)) of
        None \<Rightarrow> False
      | Some ik \<Rightarrow> deriveKey (subtle pf) ik (privateKey kp) = Some k)"

definition handshakeInv :: "nat \<Rightarrow> nat \<Rightarrow> bool" where
  "handshakeInv i j \<longleftrightarrow> i \<le> 2 \<and> j \<le> 2 \<and> (i = 2 \<longrightarrow> 1 \<le> j) \<and> (j = 2 \<longrightarrow> 1 \<le> i)"

section \<open>Concrete states on the small platform\<close>

text \<open>
  States built by running the model on \<open>toyPlatform\<close>, for the concrete instances of
  the theorems below. The local node is \<^verbatim>\<open>me\<close> with key byte 3; \<^verbatim>\<open>bob\<close>
  presents the public key \<open>[5]\<close>.
\<close>

definition toyService :: "8 word EncryptionService" where
  "toyService = snd (establishSharedKey toySubtle
       (snd (initialize (Some (toyPair 3)) newEncryptionService)) ''bob'' [5])"

definition toySharedService :: "8 word EncryptionService" where
  "toySharedService = snd (establishSharedKey toySubtle toyService ''alice'' [5])"

definition toyFreshManager :: "8 word WebRTCManager" where
  "toyFreshManager =
     newWebRTCManager ''me'' ''me'' (snd (initialize (Some (toyPair 3)) newEncryptionService))"

definition toyOffering :: "8 word WebRTCManager" where
  "toyOffering = connectToPeer toyPlatform toyFreshManager ''bob''"

definition toyOfferPc :: RTCPeerConnection where
  "toyOfferPc = \<lparr>connectionState = ''new'', signalingState = HaveLocalOffer,
     remoteDescription = None, localDescription = Some \<lparr>sdpType = Offer, sdp = ''offer''\<rparr>,
     addIceCandidateCalls = [], iceCandidates = []\<rparr>"



definition toyManager :: "8 word WebRTCManager" where
  "toyManager =
     handleDataChannelMessage toyPlatform (dataChannelOnOpen toyOffering ''bob'')
       (KeyExchangeFrame [5] ''bob'' 0 False) ''bob'' 9"

definition toyTwoKeyManager :: "8 word WebRTCManager" where
  "toyTwoKeyManager =
     handleDataChannelMessage toyPlatform toyManager (KeyExchangeFrame [6] ''alice'' 0 False)
       ''alice'' 9"

definition toyPeer :: Peer where
  "toyPeer = \<lparr>peer_id = ''bob'', name = ''Bob'', online = True,
     peer_connectionState = ''disconnected'', encryptionEstablished = False\<rparr>"

text \<open>
  \<open>toyProvider\<close>: bob is discovered and selected, the channel opens, bob's opening
  frame arrives and is answered.
  The \<open>encryptionEstablished\<close> flag is set in \<open>peers\<close>; \<open>selectedPeer\<close> still holds the
  object that was passed to \<open>selectPeer\<close>.
\<close>

definition toyProvider :: "8 word SecureChatProvider" where
  "toyProvider =
     withManager
       (\<lambda>m. handleDataChannelMessage toyPlatform m (KeyExchangeFrame [5] ''bob'' 0 False) ''bob'' 9)
       ''m0'' 9
       (withManager (\<lambda>m. dataChannelOnOpen m ''bob'') ''m0'' 8
          (selectPeer toyPlatform
             (onPeerDiscovered
                \<lparr>peers = [], selectedPeer = None, messages = [],
                 connectionStatus = ''connected'', isTyping = False,
                 webrtcManagerRef = Some toyFreshManager, nodeIdRef = ''me'',
                 usernameProp = ''me'', effectPeers = [], effectSelectedPeer = None\<rparr>
                ''bob'' ''Bob'')
             toyPeer ''m0'' 7))"

definition toyClock :: "delivery \<Rightarrow> nat \<Rightarrow> nat" where
  "toyClock d i = 30 + i"

definition toyAlice :: "8 word WebRTCManager" where
  "toyAlice = sessionNode ''alice'' ''alice'' (toyPair 3) ''bob''"

definition toyBob :: "8 word WebRTCManager" where
  "toyBob = sessionNode ''bob'' ''bob'' (toyPair 5) ''alice''"

definition toyOpenChannel :: RTCDataChannel where
  "toyOpenChannel = \<lparr>readyState = RSOpen, sent = []\<rparr>"

definition toyCrossed :: "8 word network" where
  "toyCrossed = crossedStart toyPlatform toyAlice 10 toyBob 20"

section \<open>Facts about the concrete states\<close>

lemma toy_aeadCorrect: "aeadCorrect toySubtle"
  by (simp add: aeadCorrect_def toySubtle_def toyEncrypt_def toyDecrypt_def comp_def)

lemma toy_aeadAuthentic: "aeadAuthentic toySubtle"
  by (auto simp add: aeadAuthentic_def toySubtle_def toyEncrypt_def toyDecrypt_def)

lemma toyService_eq:
  "toyService = \<lparr>keyPair = Some (toyPair 3), sharedKeys = [''bob'' \<mapsto> 8]\<rparr>"
  by (simp add: toyService_def establishSharedKey_def initialize_def newEncryptionService_def
      toySubtle_def toyImportKey_def toyPair_def)

lemma toySharedService_eq:
  "toySharedService =
     \<lparr>keyPair = Some (toyPair 3), sharedKeys = [''bob'' \<mapsto> 8, ''alice'' \<mapsto> 8]\<rparr>"
  by (simp add: toySharedService_def toyService_eq establishSharedKey_def
      toySubtle_def toyImportKey_def toyPair_def)

lemma toyFreshManager_eq:
  "toyFreshManager = \<lparr>nodeId = ''me'', username = ''me'',
     encryptionService = \<lparr>keyPair = Some (toyPair 3), sharedKeys = Map.empty\<rparr>,
     signalingSocket = None, peerConnections = Map.empty, dataChannels = Map.empty,
     pendingIceCandidates = Map.empty, connectionStates = Map.empty,
     discoveryInterval = False, events = [], callbackViews = []\<rparr>"
  by (simp add: toyFreshManager_def newWebRTCManager_def initialize_def newEncryptionService_def)

lemma toyOffering_eq:
  "toyOffering = \<lparr>nodeId = ''me'', username = ''me'',
     encryptionService = \<lparr>keyPair = Some (toyPair 3), sharedKeys = Map.empty\<rparr>,
     signalingSocket = None, peerConnections = [''bob'' \<mapsto> toyOfferPc],
     dataChannels = [''bob'' \<mapsto> \<lparr>readyState = RSConnecting, sent = []\<rparr>],
     pendingIceCandidates = Map.empty, connectionStates = Map.empty,
     discoveryInterval = False, events = [], callbackViews = []\<rparr>"
  by (simp add: toyOffering_def toyFreshManager_eq connectToPeer_def newPeerConnection_def
      setupDataChannel_def newDataChannel_def toyPlatform_def setLocalDescription_def
      sendToSignalingServer_def toyOfferPc_def Let_def)

lemma toyManager_eq:
  "toyManager = \<lparr>nodeId = ''me'', username = ''me'',
     encryptionService = \<lparr>keyPair = Some (toyPair 3), sharedKeys = [''bob'' \<mapsto> 8]\<rparr>,
     signalingSocket = None, peerConnections = [''bob'' \<mapsto> toyOfferPc],
     dataChannels = [''bob'' \<mapsto> \<lparr>readyState = RSOpen,
       sent = [KeyExchangeFrame [3] ''me'' 9 True]\<rparr>],
     pendingIceCandidates = Map.empty, connectionStates = Map.empty,
     discoveryInterval = False, events = [EncryptionEstablished ''bob''],
     callbackViews =
       [\<lparr>trackedConnections = [''bob'' \<mapsto> toyOfferPc],
         trackedChannels = [''bob'' \<mapsto> \<lparr>readyState = RSOpen,
           sent = [KeyExchangeFrame [3] ''me'' 9 True]\<rparr>],
         trackedCandidates = Map.empty, trackedStates = Map.empty,
         trackedKeys = [''bob'' \<mapsto> 8]\<rparr>]\<rparr>"
  by (simp add: toyManager_def toyOffering_eq handleDataChannelMessage_def handleKeyExchange_def
      hasSharedKey_def dataChannelOnOpen_def establishSharedKey_def toyPlatform_def
      toySubtle_def toyImportKey_def toyPair_def emit_def getPublicKey_def dataChannelSend_def
      tracking_def Let_def)

lemma toyTwoKeyManager_keys:
  "sharedKeys (encryptionService toyTwoKeyManager) ''bob'' = Some 8"
  "sharedKeys (encryptionService toyTwoKeyManager) ''alice'' = Some 9"
  by (simp_all add: toyTwoKeyManager_def toyManager_eq handleDataChannelMessage_def
      handleKeyExchange_def hasSharedKey_def establishSharedKey_def toyPlatform_def
      toySubtle_def toyImportKey_def toyPair_def emit_def Let_def)

lemma toyProvider_eq:
  "toyProvider = \<lparr>peers = [toyPeer\<lparr>encryptionEstablished := True\<rparr>],
     selectedPeer = Some toyPeer, messages = [],
     connectionStatus = ''connected'', isTyping = False,
     webrtcManagerRef = Some toyManager, nodeIdRef = ''me'',
     usernameProp = ''me'', effectPeers = [], effectSelectedPeer = None\<rparr>"
proof -
  have 1: "toyManager =
     handleDataChannelMessage toyPlatform (dataChannelOnOpen toyOffering ''bob'')
       (KeyExchangeFrame [5] ''bob'' 0 False) ''bob'' 9"
    by (simp add: toyManager_def)
  have 2: "events (dataChannelOnOpen toyOffering ''bob'') = []"
    "events toyFreshManager = []" "events toyOffering = []"
    "events toyManager = [EncryptionEstablished ''bob'']"
    by (simp_all add: dataChannelOnOpen_def toyOffering_eq toyFreshManager_eq toyManager_eq)
  show ?thesis
    unfolding toyProvider_def selectPeer_def withManager_def onPeerDiscovered_def
    by (simp add: Let_def toyOffering_def [symmetric] 1 [symmetric] 2 callback_def
        onEncryptionEstablished_def toyPeer_def)
qed

section \<open>Properties of the encryption service\<close>

lemma reachable_keyPair:
  "reachableES c s \<Longrightarrow> sharedKeys s p \<noteq> None \<Longrightarrow> keyPair s \<noteq> None"
proof (induction arbitrary: p rule: reachableES.induct)
  case rNew
  then show ?case by (simp add: newEncryptionService_def)
next
  case (rInitialize s g)
  then show ?case by (auto simp: initialize_def split: option.splits)
next
  case (rGetPublicKey s)
  then show ?case by (auto simp: getPublicKey_def split: option.splits)
next
  case (rEstablish s p' pk)
  then show ?case by (auto simp: establishSharedKey_def split: option.splits if_splits)
next
  case (rEncrypt s iv m p')
  then show ?case by (auto simp: encrypt_def split: option.splits)
next
  case (rDecrypt s ct iv p')
  then show ?case by (auto simp: decrypt_def split: option.splits)
next
  case (rRemove s p')
  then show ?case by (auto simp: removeSharedKey_def split: if_splits)
next
  case (rRotate s p')
  then show ?case by (auto simp: rotateKey_def removeSharedKey_def split: if_splits)
next
  case (rCleanup s)
  then show ?case by (simp add: cleanup_def)
qed

lemma toyService_reachable: "reachableES toySubtle toyService"
  unfolding toyService_def by (intro rEstablish rInitialize rNew)

text \<open>
  C4. For every peer with an established shared key and every payload \<open>m\<close>, \<open>encrypt\<close>
  returns a ciphertext together with the nonce it drew, and \<open>decrypt\<close> of that ciphertext
  with that nonce for the same peer returns \<open>m\<close>; neither call changes the service. The
  cipher itself is the platform's: the statement holds for every platform whose AES-GCM
  decrypts what it encrypted.
\<close>

theorem decrypt_encrypt_roundtrip:
  assumes "aeadCorrect c" and "sharedKeys s peerId = Some k"
  shows "\<exists>ct. encrypt c s iv m peerId = (Inr (ct, iv), s) \<and>
              decrypt c (snd (encrypt c s iv m peerId)) ct iv peerId = (Inr m, s)"
proof -
  from assms(1) obtain ct where
    "aesGcmEncrypt c k iv m = Some ct" "aesGcmDecrypt c k iv ct = Some m"
    unfolding aeadCorrect_def by blast
  with assms(2) show ?thesis by (simp add: encrypt_def decrypt_def)
qed

theorem decrypt_encrypt_roundtrip_witness:
  "aeadCorrect toySubtle \<and> sharedKeys toyService ''bob'' = Some 8 \<and>
   encrypt toySubtle toyService [0] [1, 2] ''bob'' = (Inr ([8, 9, 10], [0]), toyService) \<and>
   decrypt toySubtle toyService [8, 9, 10] [0] ''bob'' = (Inr [1, 2], toyService)"
proof -
  have k: "sharedKeys toyService ''bob'' = Some 8" by (simp add: toyService_eq)
  have e: "encrypt toySubtle toyService [0] [1, 2] ''bob'' = (Inr ([8, 9, 10], [0]), toyService)"
    by (simp add: encrypt_def k toySubtle_def toyEncrypt_def)
  from decrypt_encrypt_roundtrip [OF toy_aeadCorrect k, of "[0]" "[1, 2]"] e show ?thesis
    by (simp add: toy_aeadCorrect k)
qed

text \<open>
  C6. In every state the service can reach, calling \<open>establishSharedKey\<close> for a peer id
  that already has a stored key returns normally and leaves the service, the stored key
  included, exactly as it was, whatever public key is passed.
\<close>

theorem establishSharedKey_idempotent:
  assumes "reachableES c s" and "sharedKeys s peerId \<noteq> None"
  shows "establishSharedKey c s peerId peerPublicKey = (Inr (), s)"
proof -
  from reachable_keyPair [OF assms] obtain kp where "keyPair s = Some kp" by auto
  with assms(2) show ?thesis by (simp add: establishSharedKey_def)
qed

theorem establishSharedKey_idempotent_witness:
  "reachableES toySubtle toyService \<and> sharedKeys toyService ''bob'' = Some 8 \<and>
   establishSharedKey toySubtle toyService ''bob'' [9] = (Inr (), toyService) \<and>
   sharedKeys (snd (establishSharedKey toySubtle toyService ''bob'' [9])) ''bob'' = Some 8"
proof -
  have k: "sharedKeys toyService ''bob'' = Some 8" by (simp add: toyService_eq)
  then have k': "sharedKeys toyService ''bob'' \<noteq> None" by simp
  from establishSharedKey_idempotent [OF toyService_reachable k', of "[9]"] show ?thesis
    by (simp add: k toyService_reachable)
qed

text \<open>
  C7. For a peer id with no stored shared key, \<open>encrypt\<close> and \<open>decrypt\<close> both fail with
  \<open>NoKeyError\<close>, and the service (its key map included) is left unchanged.
\<close>

theorem no_key_fails:
  assumes "sharedKeys s peerId = None"
  shows "encrypt c s iv plaintext peerId = (Inl NoKeyError, s) \<and>
         decrypt c s ciphertext iv peerId = (Inl NoKeyError, s)"
  using assms by (simp add: encrypt_def decrypt_def)

theorem no_key_fails_witness:
  "sharedKeys toyService ''carol'' = None \<and>
   encrypt toySubtle toyService [0] [1, 2] ''carol'' = (Inl NoKeyError, toyService) \<and>
   decrypt toySubtle toyService [8, 9] [0] ''carol'' = (Inl NoKeyError, toyService)"
proof -
  have k: "sharedKeys toyService ''carol'' = None" by (simp add: toyService_eq)
  from no_key_fails [OF k, of toySubtle "[0]" "[1, 2]" "[8, 9]"] show ?thesis
    by (simp add: k)
qed

text \<open>
  C8, as stated: a ciphertext made for peer A never decrypts for a different peer B.
  The stored keys are derived from the public keys the peers present, and nothing makes
  two peers present different ones. Here \<^verbatim>\<open>alice\<close> and \<^verbatim>\<open>bob\<close> both presented
  \<open>[5]\<close>: the ciphertext made for \<^verbatim>\<open>alice\<close> decrypts for \<^verbatim>\<open>bob\<close>, on a platform whose
  cipher is correct and rejects every wrong key.
\<close>

theorem same_public_key_decrypts_for_other_peer:
  "aeadCorrect toySubtle \<and> aeadAuthentic toySubtle \<and> ''alice'' \<noteq> ''bob'' \<and>
   fst (encrypt toySubtle toySharedService [0] [1, 2] ''alice'') = Inr ([8, 9, 10], [0]) \<and>
   fst (decrypt toySubtle toySharedService [8, 9, 10] [0] ''bob'') = Inr [1, 2] \<and>
   fst (decrypt toySubtle toySharedService [8, 9, 10] [0] ''bob'') \<noteq> Inl DecryptionError"
proof -
  have "fst (encrypt toySubtle toySharedService [0] [1, 2] ''alice'') = Inr ([8, 9, 10], [0])"
    by (simp add: encrypt_def toySharedService_eq toySubtle_def toyEncrypt_def)
  moreover have "fst (decrypt toySubtle toySharedService [8, 9, 10] [0] ''bob'') = Inr [1, 2]"
    by (simp add: decrypt_def toySharedService_eq toySubtle_def toyDecrypt_def)
  ultimately show ?thesis
    by (simp add: toy_aeadCorrect toy_aeadAuthentic)
qed

lemma toy_initialised:
  "snd (initialize (Some (toyPair 3)) newEncryptionService)
     = \<lparr>keyPair = Some (toyPair 3), sharedKeys = Map.empty\<rparr>"
  by (simp add: initialize_def newEncryptionService_def)

text \<open>
  C8, amended: whenever the platform's AES-GCM does not verify a ciphertext under the key
  stored for peer B (as for a ciphertext made under a different key for peer A),
  \<open>decrypt\<close> for B fails with \<open>DecryptionError\<close> and leaves the service unchanged; the
  manager's handler for the incoming frame then delivers no message and leaves the whole
  manager unchanged: stored keys, channels, connection states and the record of
  callbacks. When the key stored for B is the key stored for A, a ciphertext made for A
  decrypts for B to the plaintext (on a platform whose cipher decrypts what it
  encrypted). And two peer ids that present the same public key to a service that has a
  key for neither get the same derived key stored.
\<close>

theorem decrypt_for_other_peer:
  "(sharedKeys (encryptionService s) peerB = Some kB \<and>
    aesGcmDecrypt (subtle pf) kB iv ct = None \<longrightarrow>
      decrypt (subtle pf) (encryptionService s) ct iv peerB
        = (Inl DecryptionError, encryptionService s) \<and>
      handleEncryptedMessage pf s ct iv peerB = s \<and>
      handleDataChannelMessage pf s (EncryptedMessageFrame ct iv from) peerB now = s) \<and>
   (aeadCorrect c \<and> sharedKeys es peerA = Some k \<and> sharedKeys es peerB = Some k \<and>
    fst (encrypt c es iv m peerA) = Inr (ct', iv') \<longrightarrow>
      decrypt c es ct' iv' peerB = (Inr m, es)) \<and>
   (keyPair es0 = Some kp \<and> sharedKeys es0 peerA = None \<and> sharedKeys es0 peerB = None \<and>
    importKey c pk = Some ik \<and> deriveKey c ik (privateKey kp) = Some k \<longrightarrow>
      sharedKeys (snd (establishSharedKey c (snd (establishSharedKey c es0 peerA pk)) peerB pk))
        peerA = Some k \<and>
      sharedKeys (snd (establishSharedKey c (snd (establishSharedKey c es0 peerA pk)) peerB pk))
        peerB = Some k)"
proof (intro conjI impI)
  assume a: "sharedKeys (encryptionService s) peerB = Some kB \<and>
    aesGcmDecrypt (subtle pf) kB iv ct = None"
  then show 1: "decrypt (subtle pf) (encryptionService s) ct iv peerB
        = (Inl DecryptionError, encryptionService s)"
    by (simp add: decrypt_def)
  then show 2: "handleEncryptedMessage pf s ct iv peerB = s"
    by (simp add: handleEncryptedMessage_def)
  then show "handleDataChannelMessage pf s (EncryptedMessageFrame ct iv from) peerB now = s"
    by (simp add: handleDataChannelMessage_def)
next
  assume a: "aeadCorrect c \<and> sharedKeys es peerA = Some k \<and> sharedKeys es peerB = Some k \<and>
    fst (encrypt c es iv m peerA) = Inr (ct', iv')"
  then have e: "aesGcmEncrypt c k iv m = Some ct'" and iv: "iv' = iv"
    by (auto simp add: encrypt_def split: option.splits)
  from a obtain ct0 where "aesGcmEncrypt c k iv m = Some ct0" "aesGcmDecrypt c k iv ct0 = Some m"
    unfolding aeadCorrect_def by blast
  with e have "aesGcmDecrypt c k iv ct' = Some m" by simp
  with a iv show "decrypt c es ct' iv' peerB = (Inr m, es)" by (simp add: decrypt_def)
next
  assume a: "keyPair es0 = Some kp \<and> sharedKeys es0 peerA = None \<and> sharedKeys es0 peerB = None \<and>
    importKey c pk = Some ik \<and> deriveKey c ik (privateKey kp) = Some k"
  then show "sharedKeys (snd (establishSharedKey c (snd (establishSharedKey c es0 peerA pk)) peerB pk))
        peerA = Some k"
    by (simp add: establishSharedKey_def)
next
  assume a: "keyPair es0 = Some kp \<and> sharedKeys es0 peerA = None \<and> sharedKeys es0 peerB = None \<and>
    importKey c pk = Some ik \<and> deriveKey c ik (privateKey kp) = Some k"
  then show "sharedKeys (snd (establishSharedKey c (snd (establishSharedKey c es0 peerA pk)) peerB pk))
        peerB = Some k"
    by (simp add: establishSharedKey_def)
qed

theorem decrypt_for_other_peer_witness:
  "sharedKeys (encryptionService toyTwoKeyManager) ''bob'' = Some 8 \<and>
   aesGcmDecrypt (subtle toyPlatform) 8 [0] [9, 10, 11] = None \<and>
   decrypt (subtle toyPlatform) (encryptionService toyTwoKeyManager) [9, 10, 11] [0] ''bob''
     = (Inl DecryptionError, encryptionService toyTwoKeyManager) \<and>
   handleEncryptedMessage toyPlatform toyTwoKeyManager [9, 10, 11] [0] ''bob'' = toyTwoKeyManager \<and>
   handleDataChannelMessage toyPlatform toyTwoKeyManager
     (EncryptedMessageFrame [9, 10, 11] [0] ''alice'') ''bob'' 7 = toyTwoKeyManager \<and>
   aeadCorrect toySubtle \<and>
   sharedKeys toySharedService ''alice'' = Some 8 \<and> sharedKeys toySharedService ''bob'' = Some 8 \<and>
   fst (encrypt toySubtle toySharedService [0] [1, 2] ''alice'') = Inr ([8, 9, 10], [0]) \<and>
   decrypt toySubtle toySharedService [8, 9, 10] [0] ''bob'' = (Inr [1, 2], toySharedService) \<and>
   importKey toySubtle [5] = Some 5 \<and> deriveKey toySubtle 5 (privateKey (toyPair 3)) = Some 8 \<and>
   sharedKeys
     (snd (establishSharedKey toySubtle
        (snd (establishSharedKey toySubtle
           (snd (initialize (Some (toyPair 3)) newEncryptionService)) ''alice'' [5]))
        ''bob'' [5])) ''alice'' = Some 8 \<and>
   sharedKeys
     (snd (establishSharedKey toySubtle
        (snd (establishSharedKey toySubtle
           (snd (initialize (Some (toyPair 3)) newEncryptionService)) ''alice'' [5]))
        ''bob'' [5])) ''bob'' = Some 8"
proof -
  have s: "subtle toyPlatform = toySubtle" by (simp add: toyPlatform_def)
  have d: "aesGcmDecrypt (subtle toyPlatform) 8 [0] [9, 10, 11] = None"
    by (simp add: s toySubtle_def toyDecrypt_def)
  have k: "sharedKeys toySharedService ''alice'' = Some 8"
    "sharedKeys toySharedService ''bob'' = Some 8"
    by (simp_all add: toySharedService_eq)
  have e: "fst (encrypt toySubtle toySharedService [0] [1, 2] ''alice'') = Inr ([8, 9, 10], [0])"
    by (simp add: encrypt_def k toySubtle_def toyEncrypt_def)
  have i: "keyPair (snd (initialize (Some (toyPair 3)) newEncryptionService)) = Some (toyPair 3)"
    "sharedKeys (snd (initialize (Some (toyPair 3)) newEncryptionService)) ''alice'' = None"
    "sharedKeys (snd (initialize (Some (toyPair 3)) newEncryptionService)) ''bob'' = None"
    by (simp_all add: toy_initialised)
  have j: "importKey toySubtle [5] = Some 5" "deriveKey toySubtle 5 (privateKey (toyPair 3)) = Some 8"
    by (simp_all add: toySubtle_def toyImportKey_def toyPair_def)
  note t = decrypt_for_other_peer
    [of toyTwoKeyManager "''bob''" 8 toyPlatform "[0]" "[9, 10, 11]" "''alice''" 7
        toySubtle toySharedService "''alice''" 8 "[1, 2]" "[8, 9, 10]" "[0]"
        "snd (initialize (Some (toyPair 3)) newEncryptionService)" "toyPair 3" "[5]" 5]
  from t toyTwoKeyManager_keys(1) d toy_aeadCorrect k e i j show ?thesis
    by blast
qed

section \<open>Properties of the manager\<close>

subsection \<open>Teardown\<close>

lemma teardown_fields:
  "peerConnections (handlePeerDisconnected s p) = (peerConnections s)(p := None)"
  "dataChannels (handlePeerDisconnected s p) = (dataChannels s)(p := None)"
  "pendingIceCandidates (handlePeerDisconnected s p) = (pendingIceCandidates s)(p := None)"
  "connectionStates (handlePeerDisconnected s p) = (connectionStates s)(p := None)"
  "sharedKeys (encryptionService (handlePeerDisconnected s p)) =
     (sharedKeys (encryptionService s))(p := None)"
  "events (handlePeerDisconnected s p) = events s @ [PeerDisconnected p]"
  by (cases "peerConnections s p";
      simp add: handlePeerDisconnected_def Let_def removeSharedKey_def emit_def fun_upd_idem)+

text \<open>
  C3. Tearing down peer \<open>peerId\<close> is one transition of the manager (the method has no
  suspension point). It removes the peer's entry, and nothing else, from all five
  structures: connection handle, data channel, pending-candidate queue, connection state
  and shared key. It makes exactly one callback, the peer-disconnected one, and what that
  callback sees is the five structures with the peer already removed from every one of
  them: no callback, and no later handler, sees some of the entries removed and others
  still there.
\<close>

theorem teardown_removes_everything_then_reports:
  "handlePeerDisconnected s peerId =
     s\<lparr>peerConnections := (peerConnections s)(peerId := None),
       dataChannels := (dataChannels s)(peerId := None),
       pendingIceCandidates := (pendingIceCandidates s)(peerId := None),
       connectionStates := (connectionStates s)(peerId := None),
       encryptionService :=
         (encryptionService s)\<lparr>sharedKeys := (sharedKeys (encryptionService s))(peerId := None)\<rparr>,
       events := events s @ [PeerDisconnected peerId],
       callbackViews := callbackViews s @
         [\<lparr>trackedConnections = (peerConnections s)(peerId := None),
           trackedChannels = (dataChannels s)(peerId := None),
           trackedCandidates = (pendingIceCandidates s)(peerId := None),
           trackedStates = (connectionStates s)(peerId := None),
           trackedKeys = (sharedKeys (encryptionService s))(peerId := None)\<rparr>]\<rparr>"
  by (cases "peerConnections s peerId")
     (simp_all add: handlePeerDisconnected_def Let_def emit_def tracking_def removeSharedKey_def
        fun_upd_idem)

text \<open>
  C10. \<open>disconnect\<close> empties the four maps of the manager and leaves the encryption
  service as it was: every shared key stored before is stored afterwards.
\<close>

theorem disconnect_keeps_shared_keys:
  "encryptionService (disconnect s) = encryptionService s \<and>
   sharedKeys (encryptionService (disconnect s)) = sharedKeys (encryptionService s) \<and>
   peerConnections (disconnect s) = Map.empty \<and> dataChannels (disconnect s) = Map.empty \<and>
   pendingIceCandidates (disconnect s) = Map.empty \<and> connectionStates (disconnect s) = Map.empty"
  by (simp add: disconnect_def)

subsection \<open>Candidates\<close>



























section \<open>Properties of the provider\<close>

subsection \<open>Sending\<close>











subsection \<open>The peer directory\<close>

lemma peers_peerTornDown:
  "webrtcManagerRef p = Some m \<Longrightarrow>
   peers (peerTornDown p peerId newId date) = peers (onPeerDisconnected p peerId)"
  by (simp add: peerTornDown_def withManager_def Let_def teardown_fields callback_def
      onPeerDisconnected_def)

lemma events_connection_failed:
  "events (onconnectionstatechange m peerId ''failed'') =
     events m @ [PeerConnectionStateChanged peerId ''failed'', PeerDisconnected peerId]"
  by (cases "peerConnections m peerId")
     (simp_all add: onconnectionstatechange_def Let_def teardown_fields emit_def)

lemma peers_peerConnectionFailed:
  "webrtcManagerRef p = Some m \<Longrightarrow>
   peers (peerConnectionFailed p peerId newId date) =
     peers (onPeerDisconnected (onPeerConnectionStateChanged p peerId ''failed'') peerId)"
  by (simp add: peerConnectionFailed_def withManager_def Let_def events_connection_failed
      callback_def onPeerDisconnected_def onPeerConnectionStateChanged_def)

lemma onPeerDisconnected_ids:
  "map peer_id (peers (onPeerDisconnected p peerId)) = map peer_id (peers p)"
  by (simp add: onPeerDisconnected_def comp_def)

lemma onPeerConnectionStateChanged_ids:
  "map peer_id (peers (onPeerConnectionStateChanged p peerId st)) = map peer_id (peers p)"
  by (simp add: onPeerConnectionStateChanged_def comp_def)

lemma offline_after_failed:
  "(\<lambda>q. if peer_id q = peerId
         then q\<lparr>online := False, peer_connectionState := ''disconnected'',
                encryptionEstablished := False\<rparr>
         else q) \<circ> (\<lambda>q. if peer_id q = peerId then q\<lparr>peer_connectionState := st\<rparr> else q)
   = (\<lambda>q. if peer_id q = peerId
           then q\<lparr>online := False, peer_connectionState := ''disconnected'',
                  encryptionEstablished := False\<rparr>
           else q)"
  by (rule ext) simp

text \<open>
  C9, as stated: the peer is absent from the directory after the peer-disconnected path.
  The callback the provider installs for it rewrites the entry and keeps it: after
  \<^verbatim>\<open>bob\<close>'s connection fails, \<^verbatim>\<open>bob\<close> is still listed.
\<close>

theorem failed_peer_stays_listed:
  "map peer_id (peers toyProvider) = [''bob''] \<and>
   map peer_id (peers (peerConnectionFailed toyProvider ''bob'' ''m1'' 7)) = [''bob''] \<and>
   map peer_id (peers (peerTornDown toyProvider ''bob'' ''m1'' 7)) = [''bob'']"
proof -
  have 1: "map peer_id (peers toyProvider) = [''bob'']"
    by (simp add: toyProvider_eq toyPeer_def)
  have 2: "webrtcManagerRef toyProvider = Some toyManager" by (simp add: toyProvider_eq)
  show ?thesis
    by (simp add: peers_peerConnectionFailed [OF 2] peers_peerTornDown [OF 2]
        onPeerDisconnected_ids onPeerConnectionStateChanged_ids 1)
qed

text \<open>
  C9, amended: after an explicit \<open>disconnectPeer\<close> no entry of the directory carries the
  peer's id. On the peer-disconnected path (a teardown inside the manager, or the
  connection reporting \<^verbatim>\<open>'failed'\<close>) the directory keeps every entry, in the same
  order, and the entries of that peer are marked offline, \<^verbatim>\<open>'disconnected'\<close> and
  without encryption.
\<close>

theorem directory_after_disconnect:
  "peerId \<notin> peer_id ` set (peers (disconnectPeer p peerId newId date)) \<and>
   (\<forall>m. webrtcManagerRef p = Some m \<longrightarrow>
      peers (peerTornDown p peerId newId date) =
        map (\<lambda>q. if peer_id q = peerId
                  then q\<lparr>online := False, peer_connectionState := ''disconnected'',
                         encryptionEstablished := False\<rparr>
                  else q) (peers p) \<and>
      peers (peerConnectionFailed p peerId newId date) =
        map (\<lambda>q. if peer_id q = peerId
                  then q\<lparr>online := False, peer_connectionState := ''disconnected'',
                         encryptionEstablished := False\<rparr>
                  else q) (peers p) \<and>
      map peer_id (peers (peerTornDown p peerId newId date)) = map peer_id (peers p) \<and>
      map peer_id (peers (peerConnectionFailed p peerId newId date)) = map peer_id (peers p))"
proof -
  have 1: "peerId \<notin> peer_id ` set (peers (disconnectPeer p peerId newId date))"
    by (auto simp add: disconnectPeer_def Let_def)
  have 2: "peers (onPeerDisconnected (onPeerConnectionStateChanged p peerId ''failed'') peerId) =
        map (\<lambda>q. if peer_id q = peerId
                  then q\<lparr>online := False, peer_connectionState := ''disconnected'',
                         encryptionEstablished := False\<rparr>
                  else q) (peers p)"
    unfolding onPeerDisconnected_def onPeerConnectionStateChanged_def
    by (simp add: offline_after_failed del: o_apply)
  have 3: "peers (onPeerDisconnected p peerId) =
        map (\<lambda>q. if peer_id q = peerId
                  then q\<lparr>online := False, peer_connectionState := ''disconnected'',
                         encryptionEstablished := False\<rparr>
                  else q) (peers p)"
    by (simp add: onPeerDisconnected_def)
  show ?thesis
  proof (intro conjI allI impI)
    show "peerId \<notin> peer_id ` set (peers (disconnectPeer p peerId newId date))" by (rule 1)
  next
    fix m assume m: "webrtcManagerRef p = Some m"
    show "peers (peerTornDown p peerId newId date) =
        map (\<lambda>q. if peer_id q = peerId
                  then q\<lparr>online := False, peer_connectionState := ''disconnected'',
                         encryptionEstablished := False\<rparr>
                  else q) (peers p)"
      unfolding peers_peerTornDown [OF m] by (rule 3)
    show "peers (peerConnectionFailed p peerId newId date) =
        map (\<lambda>q. if peer_id q = peerId
                  then q\<lparr>online := False, peer_connectionState := ''disconnected'',
                         encryptionEstablished := False\<rparr>
                  else q) (peers p)"
      unfolding peers_peerConnectionFailed [OF m] by (rule 2)
    show "map peer_id (peers (peerTornDown p peerId newId date)) = map peer_id (peers p)"
      unfolding peers_peerTornDown [OF m] by (rule onPeerDisconnected_ids)
    show "map peer_id (peers (peerConnectionFailed p peerId newId date)) = map peer_id (peers p)"
      unfolding peers_peerConnectionFailed [OF m]
      by (simp only: onPeerDisconnected_ids onPeerConnectionStateChanged_ids)
  qed
qed

theorem directory_after_disconnect_witness:
  "webrtcManagerRef toyProvider = Some toyManager \<and>
   peers toyProvider = [toyPeer\<lparr>encryptionEstablished := True\<rparr>] \<and>
   ''bob'' \<notin> peer_id ` set (peers (disconnectPeer toyProvider ''bob'' ''m1'' 7)) \<and>
   peers (peerTornDown toyProvider ''bob'' ''m1'' 7) = [toyPeer\<lparr>online := False\<rparr>] \<and>
   peers (peerConnectionFailed toyProvider ''bob'' ''m1'' 7) = [toyPeer\<lparr>online := False\<rparr>]"
proof -
  have 1: "webrtcManagerRef toyProvider = Some toyManager"
    and 2: "peers toyProvider = [toyPeer\<lparr>encryptionEstablished := True\<rparr>]"
    by (simp_all add: toyProvider_eq)
  from directory_after_disconnect [of "''bob''" toyProvider "''m1''" 7] 1
  show ?thesis
    by (simp add: 1 2 toyPeer_def)
qed

section \<open>The crossed key exchange\<close>

lemma node0:
  assumes "keyPair (encryptionService s) = Some kp"
    and "sharedKeys (encryptionService s) peer = None"
    and "dataChannels s peer = Some dc" and "readyState dc = RSOpen"
  shows "performKeyExchange pf s peer t0 = nodeState pf s kp dc peer k t0 t1 0"
  using assms
  by (simp add: performKeyExchange_def hasSharedKey_def getPublicKey_def dataChannelSend_def
      nodeState_def Let_def)

lemma node1:
  assumes "keyPair (encryptionService s) = Some kp"
    and "sharedKeys (encryptionService s) peer = None"
    and "readyState dc = RSOpen"
    and "importKey (subtle pf) pk = Some ik" "deriveKey (subtle pf) ik (privateKey kp) = Some k"
  shows "handleDataChannelMessage pf (nodeState pf s kp dc peer k t0 t1' 0)
           (KeyExchangeFrame pk from ts False) peer t1 = nodeState pf s kp dc peer k t0 t1 (Suc 0)"
  using assms
  by (simp add: handleDataChannelMessage_def handleKeyExchange_def nodeState_def hasSharedKey_def
      establishSharedKey_def getPublicKey_def dataChannelSend_def emit_def Let_def
      tracking_def)

lemma node2:
  "handleDataChannelMessage pf (nodeState pf s kp dc peer k t0 t1 (Suc 0))
           (KeyExchangeFrame pk from ts r) peer t = nodeState pf s kp dc peer k t0 t1 2"
  by (simp add: handleDataChannelMessage_def handleKeyExchange_def nodeState_def hasSharedKey_def
      emit_def Let_def tracking_def)

lemma node_outbox:
  "outbox (nodeState pf s kp dc peer k t0 t1 i) peer =
     sent dc @ KeyExchangeFrame (exportKey (subtle pf) (publicKey kp)) (nodeId s) t0 False #
                (if i = 0 then []
                 else [KeyExchangeFrame (exportKey (subtle pf) (publicKey kp)) (nodeId s) t1 True])"
  "nodeId (nodeState pf s kp dc peer k t0 t1 i) = nodeId s"
  by (simp_all add: outbox_def nodeState_def Let_def)

lemma ready_node1:
  assumes "handshakeReady pf s kp dc other kpOther k"
  shows "handleDataChannelMessage pf (nodeState pf s kp dc (nodeId other) k t0 t1' 0)
           (KeyExchangeFrame (exportKey (subtle pf) (publicKey kpOther)) from ts False)
           (nodeId other) t1
         = nodeState pf s kp dc (nodeId other) k t0 t1 (Suc 0)"
proof -
  from assms obtain ik where
    "importKey (subtle pf) (exportKey (subtle pf) (publicKey kpOther)) = Some ik"
    "deriveKey (subtle pf) ik (privateKey kp) = Some k"
    by (auto simp add: handshakeReady_def split: option.splits)
  with assms show ?thesis
    by (intro node1) (simp_all add: handshakeReady_def)
qed

lemma start_net:
  assumes A: "handshakeReady pf sA kpA dcA sB kpB kA"
    and B: "handshakeReady pf sB kpB dcB sA kpA kB"
  shows "crossedStart pf sA tA sB tB = netState pf clock sA kpA dcA kA tA sB kpB dcB kB tB 0 0"
proof -
  have a: "performKeyExchange pf sA (nodeId sB) tA =
      nodeState pf sA kpA dcA (nodeId sB) kA tA (clock ToA (length (sent dcB))) 0"
    using A by (intro node0) (simp_all add: handshakeReady_def)
  have b: "performKeyExchange pf sB (nodeId sA) tB =
      nodeState pf sB kpB dcB (nodeId sA) kB tB (clock ToB (length (sent dcA))) 0"
    using B by (intro node0) (simp_all add: handshakeReady_def)
  have o: "outbox sA (nodeId sB) = sent dcA" "outbox sB (nodeId sA) = sent dcB"
    using A B by (simp_all add: handshakeReady_def outbox_def)
  show ?thesis by (simp add: crossedStart_def netState_def a b o)
qed

lemma deliver_ToA:
  assumes A: "handshakeReady pf sA kpA dcA sB kpB kA" and "i \<le> 2"
  shows "deliver pf clock (netState pf clock sA kpA dcA kA tA sB kpB dcB kB tB i j) ToA =
         netState pf clock sA kpA dcA kA tA sB kpB dcB kB tB
           (if i = 0 then 1 else if i = 1 \<and> 1 \<le> j then 2 else i) j"
proof -
  consider "i = 0" | "i = 1" "j = 0" | "i = 1" "1 \<le> j" | "i = 2"
    using assms(2) by linarith
  then show ?thesis
  proof cases
    case 1
    then show ?thesis
      by (simp add: deliver_def netState_def node_outbox Let_def nth_append ready_node1 [OF A])
  next
    case 2
    then show ?thesis
      by (simp add: deliver_def netState_def node_outbox Let_def)
  next
    case 3
    then show ?thesis
      by (simp add: deliver_def netState_def node_outbox Let_def nth_append node2)
  next
    case 4
    then show ?thesis
      by (simp add: deliver_def netState_def node_outbox Let_def)
  qed
qed

lemma deliver_ToB:
  assumes B: "handshakeReady pf sB kpB dcB sA kpA kB" and "j \<le> 2"
  shows "deliver pf clock (netState pf clock sA kpA dcA kA tA sB kpB dcB kB tB i j) ToB =
         netState pf clock sA kpA dcA kA tA sB kpB dcB kB tB i
           (if j = 0 then 1 else if j = 1 \<and> 1 \<le> i then 2 else j)"
proof -
  consider "j = 0" | "j = 1" "i = 0" | "j = 1" "1 \<le> i" | "j = 2"
    using assms(2) by linarith
  then show ?thesis
  proof cases
    case 1
    then show ?thesis
      by (simp add: deliver_def netState_def node_outbox Let_def nth_append ready_node1 [OF B])
  next
    case 2
    then show ?thesis
      by (simp add: deliver_def netState_def node_outbox Let_def)
  next
    case 3
    then show ?thesis
      by (simp add: deliver_def netState_def node_outbox Let_def nth_append node2)
  next
    case 4
    then show ?thesis
      by (simp add: deliver_def netState_def node_outbox Let_def)
  qed
qed

lemma deliver_inv:
  assumes A: "handshakeReady pf sA kpA dcA sB kpB kA"
    and B: "handshakeReady pf sB kpB dcB sA kpA kB"
    and "handshakeInv i j"
  shows "\<exists>i' j'. handshakeInv i' j' \<and>
           deliver pf clock (netState pf clock sA kpA dcA kA tA sB kpB dcB kB tB i j) d =
             netState pf clock sA kpA dcA kA tA sB kpB dcB kB tB i' j'"
proof (cases d)
  case ToA
  have "i \<le> 2" using assms(3) by (simp add: handshakeInv_def)
  then have "deliver pf clock (netState pf clock sA kpA dcA kA tA sB kpB dcB kB tB i j) ToA =
         netState pf clock sA kpA dcA kA tA sB kpB dcB kB tB
           (if i = 0 then 1 else if i = 1 \<and> 1 \<le> j then 2 else i) j"
    by (rule deliver_ToA [OF A])
  moreover have "handshakeInv (if i = 0 then 1 else if i = 1 \<and> 1 \<le> j then 2 else i) j"
    using assms(3) by (auto simp add: handshakeInv_def)
  ultimately show ?thesis using ToA by blast
next
  case ToB
  have "j \<le> 2" using assms(3) by (simp add: handshakeInv_def)
  then have "deliver pf clock (netState pf clock sA kpA dcA kA tA sB kpB dcB kB tB i j) ToB =
         netState pf clock sA kpA dcA kA tA sB kpB dcB kB tB i
           (if j = 0 then 1 else if j = 1 \<and> 1 \<le> i then 2 else j)"
    by (rule deliver_ToB [OF B])
  moreover have "handshakeInv i (if j = 0 then 1 else if j = 1 \<and> 1 \<le> i then 2 else j)"
    using assms(3) by (auto simp add: handshakeInv_def)
  ultimately show ?thesis using ToB by blast
qed

lemma run_inv:
  assumes A: "handshakeReady pf sA kpA dcA sB kpB kA"
    and B: "handshakeReady pf sB kpB dcB sA kpA kB"
    and "handshakeInv i j"
  shows "\<exists>i' j'. handshakeInv i' j' \<and>
           run pf clock (netState pf clock sA kpA dcA kA tA sB kpB dcB kB tB i j) ds =
             netState pf clock sA kpA dcA kA tA sB kpB dcB kB tB i' j'"
  using assms(3)
proof (induction ds arbitrary: i j)
  case Nil
  then show ?case by auto
next
  case (Cons d ds)
  from deliver_inv [OF A B Cons.prems]
  obtain i' j' where "handshakeInv i' j'"
    "deliver pf clock (netState pf clock sA kpA dcA kA tA sB kpB dcB kB tB i j) d =
             netState pf clock sA kpA dcA kA tA sB kpB dcB kB tB i' j'" by blast
  with Cons.IH [of i' j'] show ?case by simp
qed

lemma quiescent_net:
  "handshakeInv i j \<Longrightarrow>
   quiescent (netState pf clock sA kpA dcA kA tA sB kpB dcB kB tB i j) \<longleftrightarrow> i = 2 \<and> j = 2"
  by (auto simp add: quiescent_def netState_def node_outbox handshakeInv_def)

lemma drain:
  assumes A: "handshakeReady pf sA kpA dcA sB kpB kA"
    and B: "handshakeReady pf sB kpB dcB sA kpA kB"
    and "handshakeInv i j"
  shows "run pf clock (netState pf clock sA kpA dcA kA tA sB kpB dcB kB tB i j)
           [ToA, ToB, ToA, ToB] =
         netState pf clock sA kpA dcA kA tA sB kpB dcB kB tB 2 2"
proof -
  let ?net = "netState pf clock sA kpA dcA kA tA sB kpB dcB kB tB"
  define i1 where "i1 = (if i = 0 then 1 else if i = 1 \<and> 1 \<le> j then 2 else i)"
  define j1 where "j1 = (if j = 0 then 1 else if j = 1 \<and> 1 \<le> i1 then 2 else j)"
  define i2 where "i2 = (if i1 = 0 then 1 else if i1 = 1 \<and> 1 \<le> j1 then 2 else i1)"
  define j2 where "j2 = (if j1 = 0 then 1 else if j1 = 1 \<and> 1 \<le> i2 then 2 else j1)"
  have b: "i \<le> 2" "j \<le> 2" "i1 \<le> 2" "j1 \<le> 2"
    using assms(3) by (simp_all add: handshakeInv_def i1_def j1_def)
  have e: "i2 = 2" "j2 = 2"
    using assms(3) by (auto simp add: handshakeInv_def i1_def j1_def i2_def j2_def)
  have d1: "deliver pf clock (?net i j) ToA = ?net i1 j"
    unfolding i1_def by (rule deliver_ToA [OF A b(1)])
  have d2: "deliver pf clock (?net i1 j) ToB = ?net i1 j1"
    unfolding j1_def by (rule deliver_ToB [OF B b(2)])
  have d3: "deliver pf clock (?net i1 j1) ToA = ?net i2 j1"
    unfolding i2_def by (rule deliver_ToA [OF A b(3)])
  have d4: "deliver pf clock (?net i2 j1) ToB = ?net i2 j2"
    unfolding j2_def by (rule deliver_ToB [OF B b(4)])
  have "run pf clock (?net i j) [ToA, ToB, ToA, ToB] = ?net i2 j2"
    by (simp only: run.simps d1 d2 d3 d4)
  then show ?thesis by (simp only: e)
qed

lemma run_append: "run pf clock n (xs @ ys) = run pf clock (run pf clock n xs) ys"
  by (induction xs arbitrary: n) simp_all

lemma final_net:
  "sharedKeys (encryptionService (nodeA (netState pf clock sA kpA dcA kA tA sB kpB dcB kB tB 2 2)))
     = (sharedKeys (encryptionService sA))(nodeId sB \<mapsto> kA)"
  "sharedKeys (encryptionService (nodeB (netState pf clock sA kpA dcA kA tA sB kpB dcB kB tB 2 2)))
     = (sharedKeys (encryptionService sB))(nodeId sA \<mapsto> kB)"
  "events (nodeA (netState pf clock sA kpA dcA kA tA sB kpB dcB kB tB 2 2))
     = events sA @ [EncryptionEstablished (nodeId sB), EncryptionEstablished (nodeId sB)]"
  "events (nodeB (netState pf clock sA kpA dcA kA tA sB kpB dcB kB tB 2 2))
     = events sB @ [EncryptionEstablished (nodeId sA), EncryptionEstablished (nodeId sA)]"
  "outbox (nodeA (netState pf clock sA kpA dcA kA tA sB kpB dcB kB tB 2 2)) (nodeId sB)
     = sent dcA @
       [KeyExchangeFrame (exportKey (subtle pf) (publicKey kpA)) (nodeId sA) tA False,
        KeyExchangeFrame (exportKey (subtle pf) (publicKey kpA)) (nodeId sA)
          (clock ToA (length (sent dcB))) True]"
  "outbox (nodeB (netState pf clock sA kpA dcA kA tA sB kpB dcB kB tB 2 2)) (nodeId sA)
     = sent dcB @
       [KeyExchangeFrame (exportKey (subtle pf) (publicKey kpB)) (nodeId sB) tB False,
        KeyExchangeFrame (exportKey (subtle pf) (publicKey kpB)) (nodeId sB)
          (clock ToB (length (sent dcA))) True]"
  by (simp_all add: netState_def nodeState_def outbox_def Let_def)

lemma toy_ready:
  "handshakeReady toyPlatform toyAlice (toyPair 3) toyOpenChannel toyBob (toyPair 5) 8"
  "handshakeReady toyPlatform toyBob (toyPair 5) toyOpenChannel toyAlice (toyPair 3) 8"
  by (simp_all add: handshakeReady_def toyAlice_def toyBob_def toyOpenChannel_def sessionNode_def
      dataChannelOnOpen_def setupDataChannel_def newWebRTCManager_def initialize_def
      newEncryptionService_def newDataChannel_def toyPlatform_def toySubtle_def toyImportKey_def
      toyPair_def)

lemma toy_nodes:
  "nodeId toyAlice = ''alice''" "nodeId toyBob = ''bob''"
  "events toyAlice = []" "events toyBob = []"
  "sharedKeys (encryptionService toyAlice) = Map.empty"
  "sharedKeys (encryptionService toyBob) = Map.empty"
  by (simp_all add: toyAlice_def toyBob_def sessionNode_def dataChannelOnOpen_def
      setupDataChannel_def newWebRTCManager_def initialize_def newEncryptionService_def
      newDataChannel_def)

text \<open>
  C1, as stated: after a crossed start each side emits the encryption-established event
  exactly once. Each side handles two frames, the other side's opening frame and the other
  side's response to its own, and \<open>handleKeyExchange\<close> makes the callback on both: once
  after storing the key, once on finding the key stored. With all four frames delivered,
  \<^verbatim>\<open>alice\<close> stores one key for \<^verbatim>\<open>bob\<close> and has made the callback twice.
\<close>

theorem crossed_exchange_emits_twice:
  "quiescent (run toyPlatform toyClock toyCrossed [ToA, ToB, ToA, ToB]) \<and>
   sharedKeys (encryptionService (nodeA (run toyPlatform toyClock toyCrossed [ToA, ToB, ToA, ToB])))
     = [''bob'' \<mapsto> 8] \<and>
   events (nodeA (run toyPlatform toyClock toyCrossed [ToA, ToB, ToA, ToB]))
     = [EncryptionEstablished ''bob'', EncryptionEstablished ''bob''] \<and>
   countEvent (EncryptionEstablished ''bob'')
     (nodeA (run toyPlatform toyClock toyCrossed [ToA, ToB, ToA, ToB])) = 2 \<and>
   countEvent (EncryptionEstablished ''bob'')
     (nodeA (run toyPlatform toyClock toyCrossed [ToA, ToB, ToA, ToB])) \<noteq> 1"
proof -
  have i: "handshakeInv 0 0" by (simp add: handshakeInv_def)
  have f: "handshakeInv 2 2" by (simp add: handshakeInv_def)
  have "run toyPlatform toyClock toyCrossed [ToA, ToB, ToA, ToB] =
      netState toyPlatform toyClock toyAlice (toyPair 3) toyOpenChannel 8 10
        toyBob (toyPair 5) toyOpenChannel 8 20 2 2"
    unfolding toyCrossed_def start_net [OF toy_ready, of 10 20 toyClock]
    by (rule drain [OF toy_ready i])
  then show ?thesis
    by (simp add: quiescent_net [OF f] final_net countEvent_def toy_nodes)
qed

text \<open>
  C1, amended: let two managers be ready for the handshake with each other and start
  crossed. Whatever the order of delivery, the exchange can always be brought to rest by
  four more deliveries, and whenever every frame sent has been handled, each side stores
  the one key derived for the other peer (its other keys untouched), has sent exactly two
  frames (its opening frame and one response: no reciprocation loop), and has emitted the
  encryption-established event for the other peer exactly twice.
\<close>

theorem crossed_exchange_converges:
  assumes A: "handshakeReady pf sA kpA dcA sB kpB kA"
    and B: "handshakeReady pf sB kpB dcB sA kpA kB"
  shows "quiescent (run pf clock (crossedStart pf sA tA sB tB) (ds @ [ToA, ToB, ToA, ToB])) \<and>
         (quiescent (run pf clock (crossedStart pf sA tA sB tB) ds) \<longrightarrow>
            sharedKeys (encryptionService (nodeA (run pf clock (crossedStart pf sA tA sB tB) ds)))
              = (sharedKeys (encryptionService sA))(nodeId sB \<mapsto> kA) \<and>
            sharedKeys (encryptionService (nodeB (run pf clock (crossedStart pf sA tA sB tB) ds)))
              = (sharedKeys (encryptionService sB))(nodeId sA \<mapsto> kB) \<and>
            events (nodeA (run pf clock (crossedStart pf sA tA sB tB) ds))
              = events sA @ [EncryptionEstablished (nodeId sB), EncryptionEstablished (nodeId sB)] \<and>
            events (nodeB (run pf clock (crossedStart pf sA tA sB tB) ds))
              = events sB @ [EncryptionEstablished (nodeId sA), EncryptionEstablished (nodeId sA)] \<and>
            outbox (nodeA (run pf clock (crossedStart pf sA tA sB tB) ds)) (nodeId sB)
              = sent dcA @
                [KeyExchangeFrame (exportKey (subtle pf) (publicKey kpA)) (nodeId sA) tA False,
                 KeyExchangeFrame (exportKey (subtle pf) (publicKey kpA)) (nodeId sA)
                   (clock ToA (length (sent dcB))) True] \<and>
            outbox (nodeB (run pf clock (crossedStart pf sA tA sB tB) ds)) (nodeId sA)
              = sent dcB @
                [KeyExchangeFrame (exportKey (subtle pf) (publicKey kpB)) (nodeId sB) tB False,
                 KeyExchangeFrame (exportKey (subtle pf) (publicKey kpB)) (nodeId sB)
                   (clock ToB (length (sent dcA))) True])"
proof -
  let ?net = "netState pf clock sA kpA dcA kA tA sB kpB dcB kB tB"
  have s: "crossedStart pf sA tA sB tB = ?net 0 0" by (rule start_net [OF A B])
  have i0: "handshakeInv 0 0" and i2: "handshakeInv 2 2" by (simp_all add: handshakeInv_def)
  from run_inv [OF A B i0] obtain i j where
    ij: "handshakeInv i j" and r: "run pf clock (?net 0 0) ds = ?net i j" by blast
  have "run pf clock (?net 0 0) (ds @ [ToA, ToB, ToA, ToB]) = ?net 2 2"
    unfolding run_append r by (rule drain [OF A B ij])
  then have 1: "quiescent (run pf clock (crossedStart pf sA tA sB tB)
      (ds @ [ToA, ToB, ToA, ToB]))"
    by (simp add: s quiescent_net [OF i2])
  have 2: "quiescent (run pf clock (crossedStart pf sA tA sB tB) ds) \<longrightarrow>
      run pf clock (crossedStart pf sA tA sB tB) ds = ?net 2 2"
    unfolding s r by (simp add: quiescent_net [OF ij])
  from 1 2 show ?thesis by (auto simp only: final_net)
qed

theorem crossed_exchange_converges_witness:
  "handshakeReady toyPlatform toyAlice (toyPair 3) toyOpenChannel toyBob (toyPair 5) 8 \<and>
   handshakeReady toyPlatform toyBob (toyPair 5) toyOpenChannel toyAlice (toyPair 3) 8 \<and>
   quiescent (run toyPlatform toyClock toyCrossed ([ToB, ToB, ToA] @ [ToA, ToB, ToA, ToB])) \<and>
   sharedKeys (encryptionService
     (nodeA (run toyPlatform toyClock toyCrossed ([ToB, ToB, ToA] @ [ToA, ToB, ToA, ToB]))))
       = [''bob'' \<mapsto> 8] \<and>
   sharedKeys (encryptionService
     (nodeB (run toyPlatform toyClock toyCrossed ([ToB, ToB, ToA] @ [ToA, ToB, ToA, ToB]))))
       = [''alice'' \<mapsto> 8] \<and>
   events (nodeA (run toyPlatform toyClock toyCrossed ([ToB, ToB, ToA] @ [ToA, ToB, ToA, ToB])))
       = [EncryptionEstablished ''bob'', EncryptionEstablished ''bob''] \<and>
   events (nodeB (run toyPlatform toyClock toyCrossed ([ToB, ToB, ToA] @ [ToA, ToB, ToA, ToB])))
       = [EncryptionEstablished ''alice'', EncryptionEstablished ''alice'']"
proof -
  note t = crossed_exchange_converges [OF toy_ready, of toyClock 10 20]
  from t [of "[ToB, ToB, ToA]"] have q:
    "quiescent (run toyPlatform toyClock toyCrossed ([ToB, ToB, ToA] @ [ToA, ToB, ToA, ToB]))"
    unfolding toyCrossed_def by blast
  from t [of "[ToB, ToB, ToA] @ [ToA, ToB, ToA, ToB]"] q show ?thesis
    unfolding toyCrossed_def by (simp add: toy_ready toy_nodes)
qed

end
